theory Spec2Isabelle
  imports Complex_Main
begin

section \<open>JavaScript values\<close>

text \<open>
  The TypeScript sources run on a JavaScript engine, and several functions take a value
  of type \<open>unknown\<close>.  Such values are modelled by the datatype below: the primitives,
  arrays, plain objects (an association list of own properties, first binding wins) and
  instances of \<open>Error\<close> (name and message).  Functions, symbols, proxies and objects with
  accessor properties are outside the model.

  A number is \<open>NaN\<close>, an infinity or an exact rational; the rounding of IEEE doubles and
  the sign of zero are not modelled.
\<close>

datatype jsnum = NaN | PosInf | NegInf | Fin rat

datatype jsval =
    JUndefined
  | JNull
  | JBool bool
  | JNum jsnum
  | JStr string
  | JArr "jsval list"
  | JObj "(string \<times> jsval) list"
  | JError string string

text \<open>A JavaScript exception is the thrown value; \<open>Inl\<close> carries it.\<close>

type_synonym 'a js_result = "jsval + 'a"

definition new_Error :: "string \<Rightarrow> jsval" where
  "new_Error msg = JError ''Error'' msg"

definition TypeError_null :: jsval where
  "TypeError_null = JError ''TypeError'' ''Cannot read properties of null (reading 'message')''"

definition TypeError_undefined :: jsval where
  "TypeError_undefined =
     JError ''TypeError'' ''Cannot read properties of undefined (reading 'message')''"

definition TypeError_primitive :: jsval where
  "TypeError_primitive = JError ''TypeError'' ''Cannot convert object to primitive value''"

subsection \<open>Numbers as text\<close>

definition digit_char :: "nat \<Rightarrow> char" where
  "digit_char d = ''0123456789abcdefghijklmnopqrstuvwxyz'' ! (d mod 36)"

function nat_to_radix :: "nat \<Rightarrow> nat \<Rightarrow> string" where
  "nat_to_radix b n =
     (if b < 2 \<or> n < b then [digit_char n]
      else nat_to_radix b (n div b) @ [digit_char (n mod b)])"
  by pat_completeness auto
termination
  by (relation "measure snd") auto

declare nat_to_radix.simps [simp del]

definition int_to_radix :: "nat \<Rightarrow> int \<Rightarrow> string" where
  "int_to_radix b i =
     (if i < 0 then CHR ''-'' # nat_to_radix b (nat (- i)) else nat_to_radix b (nat i))"

text \<open>
  The digits after the decimal point of a number in \<open>[0, 1)\<close>, at most \<open>k\<close> of them.
\<close>

fun frac_digits :: "nat \<Rightarrow> rat \<Rightarrow> string" where
  "frac_digits 0 r = []"
| "frac_digits (Suc k) r =
     (if r = 0 then []
      else digit_char (nat \<lfloor>r * 10\<rfloor>) # frac_digits k (r * 10 - of_int \<lfloor>r * 10\<rfloor>))"

text \<open>
  \<open>Number.prototype.toString()\<close>.  Integers print as their decimal digits (the engine
  does so below \<open>10\<^sup>2\<^sup>1\<close>); other numbers print in positional notation, which is what
  the engine prints for the magnitudes between \<open>10\<^sup>-\<^sup>6\<close> and \<open>10\<^sup>2\<^sup>1\<close>.
\<close>

definition number_to_string :: "jsnum \<Rightarrow> string" where
  "number_to_string n =
     (case n of
        NaN \<Rightarrow> ''NaN''
      | PosInf \<Rightarrow> ''Infinity''
      | NegInf \<Rightarrow> ''-Infinity''
      | Fin r \<Rightarrow>
          (if r = of_int \<lfloor>r\<rfloor> then int_to_radix 10 \<lfloor>r\<rfloor>
           else (if r < 0 then ''-'' else '''')
                @ nat_to_radix 10 (nat \<lfloor>\<bar>r\<bar>\<rfloor>) @ ''.''
                @ frac_digits 20 (\<bar>r\<bar> - of_int \<lfloor>\<bar>r\<bar>\<rfloor>)))"

subsection \<open>Conversions and property access\<close>

fun join_comma :: "string list \<Rightarrow> string" where
  "join_comma [] = []"
| "join_comma [s] = s"
| "join_comma (s # t # ss) = s @ '','' @ join_comma (t # ss)"

text \<open>The results of a list of conversions made in order, or the first exception.\<close>

fun all_results :: "'a js_result list \<Rightarrow> 'a list js_result" where
  "all_results [] = Inr []"
| "all_results (Inl e # rs) = Inl e"
| "all_results (Inr x # rs) =
     (case all_results rs of Inl e \<Rightarrow> Inl e | Inr xs \<Rightarrow> Inr (x # xs))"

text \<open>
  \<open>String(v)\<close>, and the conversion a template literal makes; \<open>Inl\<close> is the exception it
  throws.  An array joins the conversions of its elements with commas, \<open>null\<close> and
  \<open>undefined\<close> elements giving the empty text, and throws what the first failing element
  throws.  An \<open>Error\<close> gives its name and message.  A plain object gives
  \<open>[object Object]\<close> through the \<open>toString\<close> it inherits; an own property \<open>toString\<close>
  hides that method, and since no value of the model is a function the conversion then
  finds no method that gives a primitive (the inherited \<open>valueOf\<close> gives the object
  itself) and throws a \<open>TypeError\<close>.
\<close>

fun ToString :: "jsval \<Rightarrow> string js_result" where
  "ToString JUndefined = Inr ''undefined''"
| "ToString JNull = Inr ''null''"
| "ToString (JBool b) = Inr (if b then ''true'' else ''false'')"
| "ToString (JNum n) = Inr (number_to_string n)"
| "ToString (JStr s) = Inr s"
| "ToString (JArr xs) =
     (case all_results
             (map (\<lambda>x. if x = JUndefined \<or> x = JNull then Inr [] else ToString x) xs) of
        Inl exn \<Rightarrow> Inl exn
      | Inr texts \<Rightarrow> Inr (join_comma texts))"
| "ToString (JObj kvs) =
     (if map_of kvs ''toString'' = None then Inr ''[object Object]''
      else Inl TypeError_primitive)"
| "ToString (JError name msg) =
     Inr (if name = [] then msg else if msg = [] then name else name @ '': '' @ msg)"

text \<open>\<open>String(v)\<close> as a value.\<close>

definition String_of :: "jsval \<Rightarrow> jsval js_result" where
  "String_of v = (case ToString v of Inl exn \<Rightarrow> Inl exn | Inr s \<Rightarrow> Inr (JStr s))"

text \<open>Truthiness, as tested by \<open>!v\<close>, \<open>v && ...\<close> and \<open>v || ...\<close>.\<close>

fun truthy :: "jsval \<Rightarrow> bool" where
  "truthy JUndefined = False"
| "truthy JNull = False"
| "truthy (JBool b) = b"
| "truthy (JNum n) = (n \<noteq> NaN \<and> n \<noteq> Fin 0)"
| "truthy (JStr s) = (s \<noteq> [])"
| "truthy (JArr xs) = True"
| "truthy (JObj kvs) = True"
| "truthy (JError name msg) = True"

text \<open>\<open>typeof v === 'object'\<close>, which holds of \<open>null\<close> too.\<close>

fun typeof_object :: "jsval \<Rightarrow> bool" where
  "typeof_object JNull = True"
| "typeof_object (JArr xs) = True"
| "typeof_object (JObj kvs) = True"
| "typeof_object (JError name msg) = True"
| "typeof_object v = False"

fun typeof_string :: "jsval \<Rightarrow> bool" where
  "typeof_string (JStr s) = True"
| "typeof_string v = False"

text \<open>
  \<open>k in v\<close> and \<open>v.k\<close> for the property names the sources use (\<open>result\<close>, \<open>error\<close>,
  \<open>message\<close>, \<open>statusText\<close>): none of them is a property of the built-in prototypes of
  objects, arrays or primitives, so only own properties and the \<open>name\<close> and \<open>message\<close>
  of an \<open>Error\<close> are looked up.  Reading a property of \<open>null\<close> or \<open>undefined\<close> throws a
  \<open>TypeError\<close>.
\<close>

fun has_property :: "string \<Rightarrow> jsval \<Rightarrow> bool" where
  "has_property k (JObj kvs) = (map_of kvs k \<noteq> None)"
| "has_property k (JError name msg) = (k = ''message'' \<or> k = ''name'')"
| "has_property k v = False"

fun get_property :: "jsval \<Rightarrow> string \<Rightarrow> jsval js_result" where
  "get_property JUndefined k = Inl TypeError_undefined"
| "get_property JNull k = Inl TypeError_null"
| "get_property (JObj kvs) k = Inr (case map_of kvs k of None \<Rightarrow> JUndefined | Some x \<Rightarrow> x)"
| "get_property (JError name msg) k =
     Inr (if k = ''message'' then JStr msg else if k = ''name'' then JStr name else JUndefined)"
| "get_property v k = Inr JUndefined"

text \<open>The same read where the receiver is known to be neither \<open>null\<close> nor \<open>undefined\<close>.\<close>

definition read_member :: "jsval \<Rightarrow> string \<Rightarrow> jsval" where
  "read_member v k = (case get_property v k of Inl e \<Rightarrow> JUndefined | Inr x \<Rightarrow> x)"

section \<open>Error normalizer\<close>

text \<open>
  \<open>extractErrorMessage\<close>, the part after the gapi envelope: the \<open>message\<close> of a standard
  error, the \<open>statusText\<close> of an HTTP error, else \<open>String(error)\<close>.
\<close>

definition standard_message :: "jsval \<Rightarrow> jsval js_result" where
  "standard_message error =
     (if has_property ''message'' error \<and> typeof_string (read_member error ''message'')
      then Inr (read_member error ''message'')
      else if has_property ''statusText'' error \<and> typeof_string (read_member error ''statusText'')
      then Inr (read_member error ''statusText'')
      else String_of error)"

text \<open>
  \<open>extractErrorMessage(error: unknown): string\<close>.  The declared result type is not
  checked at run time, so the model returns a value; \<open>Inl\<close> is an exception thrown by the
  function itself.
\<close>

definition extractErrorMessage :: "jsval \<Rightarrow> jsval js_result" where
  "extractErrorMessage error =
     (if \<not> truthy error \<or> \<not> typeof_object error then String_of error
      else if has_property ''result'' error \<and> truthy (read_member error ''result'')
              \<and> typeof_object (read_member error ''result'')
              \<and> has_property ''error'' (read_member error ''result'')
      then (case get_property (read_member (read_member error ''result'') ''error'') ''message'' of
              Inl exn \<Rightarrow> Inl exn
            | Inr m \<Rightarrow> if truthy m then Inr m else standard_message error)
      else standard_message error)"


text \<open>
  The gapi error envelope, as the guard of \<open>extractErrorMessage\<close> tests it: \<open>result\<close> is a
  non-null object with an \<open>error\<close> property.
\<close>

definition gapi_envelope :: "jsval \<Rightarrow> bool" where
  "gapi_envelope error =
     (has_property ''result'' error \<and> truthy (read_member error ''result'')
      \<and> typeof_object (read_member error ''result'')
      \<and> has_property ''error'' (read_member error ''result''))"

section \<open>Parsing numbers\<close>

text \<open>
  \<open>parseInt\<close> and \<open>parseFloat\<close> skip leading white space (the ASCII white space
  here), read a sign and the longest prefix that is a numeral, and give \<open>NaN\<close> when
  there is none.  \<open>parseInt\<close> without a radix reads a \<open>0x\<close> prefix as hexadecimal;
  with radix 10 it does not.
\<close>

definition is_space :: "char \<Rightarrow> bool" where
  "is_space c = (of_char c \<in> {9, 10, 11, 12, 13, 32 :: nat})"

definition digit_value :: "char \<Rightarrow> nat option" where
  "digit_value c =
     (let n = (of_char c :: nat) in
      if 48 \<le> n \<and> n \<le> 57 then Some (n - 48)
      else if 97 \<le> n \<and> n \<le> 122 then Some (n - 87)
      else if 65 \<le> n \<and> n \<le> 90 then Some (n - 55)
      else None)"

definition is_digit_in :: "nat \<Rightarrow> char \<Rightarrow> bool" where
  "is_digit_in radix c = (case digit_value c of None \<Rightarrow> False | Some d \<Rightarrow> d < radix)"

definition digits_value :: "nat \<Rightarrow> string \<Rightarrow> nat" where
  "digits_value radix ds =
     foldl (\<lambda>acc c. acc * radix + (case digit_value c of None \<Rightarrow> 0 | Some d \<Rightarrow> d)) 0 ds"

text \<open>The sign of a numeral and the text after it.\<close>

fun read_sign :: "string \<Rightarrow> bool \<times> string" where
  "read_sign [] = (False, [])"
| "read_sign (c # cs) =
     (if c = CHR ''-'' then (True, cs) else if c = CHR ''+'' then (False, cs)
      else (False, c # cs))"

definition signed :: "bool \<Rightarrow> rat \<Rightarrow> jsnum" where
  "signed neg r = Fin (if neg then - r else r)"

text \<open>\<open>parseInt(s, radix)\<close>; \<open>None\<close> is the call with no radix.\<close>

definition parseInt :: "string \<Rightarrow> nat option \<Rightarrow> jsnum" where
  "parseInt s radix =
     (let (neg, t) = read_sign (dropWhile is_space s);
          hex = (radix = None \<and> (take 2 t = ''0x'' \<or> take 2 t = ''0X''));
          r = (case radix of None \<Rightarrow> if hex then 16 else 10 | Some r \<Rightarrow> r);
          ds = takeWhile (is_digit_in r) (if hex then drop 2 t else t)
      in if ds = [] then NaN else signed neg (of_nat (digits_value r ds)))"

text \<open>
  The exponent part of a decimal literal: \<open>e\<close> or \<open>E\<close>, an optional sign and at least one
  digit; \<open>0\<close> when the text does not start with one.
\<close>

definition read_exponent :: "string \<Rightarrow> int" where
  "read_exponent t =
     (case t of
        [] \<Rightarrow> 0
      | c # cs \<Rightarrow>
          if c = CHR ''e'' \<or> c = CHR ''E'' then
            (let (neg, u) = read_sign cs; ds = takeWhile (is_digit_in 10) u
             in if ds = [] then 0
                else if neg then - int (digits_value 10 ds) else int (digits_value 10 ds))
          else 0)"

definition scale10 :: "rat \<Rightarrow> int \<Rightarrow> rat" where
  "scale10 m e = (if 0 \<le> e then m * 10 ^ nat e else m / 10 ^ nat (- e))"

definition parseFloat :: "string \<Rightarrow> jsnum" where
  "parseFloat s =
     (let (neg, t) = read_sign (dropWhile is_space s) in
      if take 8 t = ''Infinity'' then (if neg then NegInf else PosInf)
      else
        let ip = takeWhile (is_digit_in 10) t;
            t1 = dropWhile (is_digit_in 10) t;
            dot = (take 1 t1 = ''.'');
            fp = (if dot then takeWhile (is_digit_in 10) (drop 1 t1) else []);
            t2 = (if dot then dropWhile (is_digit_in 10) (drop 1 t1) else t1)
        in if ip = [] \<and> fp = [] then NaN
           else signed neg
                  (scale10 (of_nat (digits_value 10 (ip @ fp)))
                     (read_exponent t2 - int (length fp))))"

text \<open>\<open>a < b\<close> on numbers: false whenever an operand is \<open>NaN\<close>.\<close>

fun js_less :: "jsnum \<Rightarrow> jsnum \<Rightarrow> bool" where
  "js_less NaN b = False"
| "js_less a NaN = False"
| "js_less (Fin a) (Fin b) = (a < b)"
| "js_less NegInf b = (b \<noteq> NegInf)"
| "js_less a PosInf = (a \<noteq> PosInf)"
| "js_less a b = False"

text \<open>\<open>now + n * 1000\<close> for the result \<open>n\<close> of a \<open>parseInt\<close>.\<close>

fun expiry_from :: "int \<Rightarrow> jsnum \<Rightarrow> jsnum" where
  "expiry_from now (Fin n) = Fin (of_int now + n * 1000)"
| "expiry_from now PosInf = PosInf"
| "expiry_from now NegInf = NegInf"
| "expiry_from now NaN = NaN"

section \<open>The page and what is outside it\<close>

text \<open>
  \<open>TokenResponse\<close> of Google Identity Services, the fields the sources read.
\<close>

record TokenResponse =
  access_token :: string
  expires_in :: string
  error :: "string option"

text \<open>An entry of \<open>response.result.files\<close> of the Drive listing.\<close>

record drive_file =
  file_id :: "string option"
  file_name :: "string option"

text \<open>A cell of a row sent to the Sheets API: \<open>(string | number)\<close>.\<close>

datatype cell = CStr string | CNum jsnum

text \<open>
  The libraries and services the sources call are declared in the repository
  (\<open>gapi\<close>, \<open>google.accounts.oauth2\<close>) but implemented elsewhere; they are a parameter
  of the model.  \<open>'e\<close> is the state of everything outside the page (the clock, the
  identity service, Drive and Sheets); each call gets that state and returns its outcome
  and the new state.  A rejected promise is \<open>Inl\<close> of the rejection value.  Every call is
  taken to settle.

  \<^item> \<open>Date_now\<close>: \<open>Date.now()\<close>;
  \<^item> \<open>Math_random\<close>: the text of \<open>Math.random().toString(36)\<close>;
  \<^item> \<open>requestAccessToken\<close>: the response the token client passes to its callback.  The
    callback is taken to run to its end: an exception in it would leave the promise of
    \<open>signIn\<close> pending for ever, so \<open>gapi.client\<close> is taken to be loaded when the response
    arrives;
  \<^item> \<open>revoke\<close>: \<open>google.accounts.oauth2.revoke\<close>; \<open>Some e\<close> when it throws \<open>e\<close>
    synchronously;
  \<^item> \<open>gapi_client\<close>: whether \<open>gapi.client\<close> can be read.  \<open>None\<close> when the library and
    its client are loaded; otherwise the name and the message of the error that reading
    \<open>gapi.client.getToken\<close> or \<open>gapi.client.setToken\<close> throws (a \<open>ReferenceError\<close>
    when \<open>gapi\<close> is not defined, a \<open>TypeError\<close> when \<open>gapi.client\<close> is
    \<open>undefined\<close>);
  \<^item> \<open>spreadsheets_get\<close>, \<open>files_list\<close>, \<open>spreadsheets_create\<close>,
    \<open>values_batchUpdate\<close>, \<open>values_get\<close>, \<open>values_append\<close>: the gapi client calls, with
    the parts of their results the sources read (\<open>result.files\<close>,
    \<open>result.spreadsheetId\<close>, \<open>result.values\<close>; \<open>None\<close> is \<open>undefined\<close>).
\<close>

record 'e platform =
  Date_now :: "'e \<Rightarrow> int"
  Math_random :: "'e \<Rightarrow> string \<times> 'e"
  requestAccessToken :: "'e \<Rightarrow> TokenResponse \<times> 'e"
  revoke :: "string \<Rightarrow> 'e \<Rightarrow> jsval option \<times> 'e"
  spreadsheets_get :: "string \<Rightarrow> 'e \<Rightarrow> unit js_result \<times> 'e"
  files_list :: "'e \<Rightarrow> drive_file list option js_result \<times> 'e"
  spreadsheets_create :: "string \<Rightarrow> string list \<Rightarrow> 'e \<Rightarrow> string option js_result \<times> 'e"
  values_batchUpdate ::
    "string \<Rightarrow> (string \<times> cell list list) list \<Rightarrow> 'e \<Rightarrow> unit js_result \<times> 'e"
  values_get :: "string \<Rightarrow> string \<Rightarrow> 'e \<Rightarrow> string list list option js_result \<times> 'e"
  values_append :: "string \<Rightarrow> string \<Rightarrow> cell list list \<Rightarrow> 'e \<Rightarrow> unit js_result \<times> 'e"
  gapi_client :: "'e \<Rightarrow> (string \<times> string) option"

text \<open>The exception of a read of \<open>gapi.client\<close>, if it throws.\<close>

definition client_access :: "'e platform \<Rightarrow> 'e \<Rightarrow> jsval option" where
  "client_access p e =
     (case gapi_client p e of None \<Rightarrow> None | Some (name, msg) \<Rightarrow> Some (JError name msg))"

text \<open>
  The calls the sources make that the properties below speak about, recorded in the
  order they are made.
\<close>

datatype event =
    Ev_signIn
  | Ev_requestAccessToken
  | Ev_revoke string
  | Ev_verifySheetExists string
  | Ev_findExistingSheet
  | Ev_createSheet
  | Ev_writeHeaders string

text \<open>The module variables of \<open>authService.ts\<close>.\<close>

record auth_module =
  tokenClient :: bool
  gapiInited :: bool
  gisInited :: bool
  initPromise :: "nat option"

text \<open>
  The state of the page: the module variables, \<open>localStorage\<close>, the token set on
  \<open>gapi.client\<close>, the state of the outside and the record of calls.  \<open>tokenClient\<close> tells
  whether the variable holds a client (\<open>True\<close>) or \<open>null\<close>.
\<close>

record 'e world = auth_module +
  localStorage :: "string \<rightharpoonup> string"
  gapi_token :: "string option"
  env :: 'e
  trace :: "event list"

subsection \<open>Asynchronous functions\<close>

text \<open>
  An \<open>async\<close> function is run to its settlement: it takes the state of the page and
  returns the fulfilment value or the rejection, and the new state.  Operations are not
  interleaved with one another here (the initialization, where they are, is modelled
  with its events further down).
\<close>

type_synonym ('e, 'a) async = "'e world \<Rightarrow> 'a js_result \<times> 'e world"

definition resolve :: "'a \<Rightarrow> ('e, 'a) async" where
  "resolve x w = (Inr x, w)"

definition reject :: "jsval \<Rightarrow> ('e, 'a) async" where
  "reject e w = (Inl e, w)"

text \<open>\<open>x = await m; f x\<close>: a rejection of \<open>m\<close> is thrown on.\<close>

definition await :: "('e, 'a) async \<Rightarrow> ('a \<Rightarrow> ('e, 'b) async) \<Rightarrow> ('e, 'b) async" where
  "await m f w = (case m w of (Inl e, w') \<Rightarrow> (Inl e, w') | (Inr x, w') \<Rightarrow> f x w')"

text \<open>\<open>try { m } catch (error) { h error }\<close>.\<close>

definition try_catch :: "('e, 'a) async \<Rightarrow> (jsval \<Rightarrow> ('e, 'a) async) \<Rightarrow> ('e, 'a) async" where
  "try_catch m h w = (case m w of (Inl e, w') \<Rightarrow> h e w' | (Inr x, w') \<Rightarrow> (Inr x, w'))"

text \<open>A call of the outside: its outcome, with the state of the outside replaced.\<close>

definition call_out :: "('e \<Rightarrow> 'a js_result \<times> 'e) \<Rightarrow> ('e, 'a) async" where
  "call_out f w = (case f (env w) of (r, e') \<Rightarrow> (r, w\<lparr>env := e'\<rparr>))"

definition record_call :: "event \<Rightarrow> 'e world \<Rightarrow> 'e world" where
  "record_call ev w = w\<lparr>trace := trace w @ [ev]\<rparr>"

text \<open>
  The text that a \<open>catch\<close> block puts after its prefix: \<open>errorMessage =
  extractErrorMessage(error)\<close>, converted by the template literal
  \<open>`prefix${errorMessage}`\<close>.  \<open>Inl\<close> is the exception of the normalizer or of the
  conversion.
\<close>

definition normalized_text :: "jsval \<Rightarrow> string js_result" where
  "normalized_text err =
     (case extractErrorMessage err of
        Inl exn \<Rightarrow> Inl exn
      | Inr errorMessage \<Rightarrow> ToString errorMessage)"

text \<open>
  \<open>throw new Error(`prefix${errorMessage}`)\<close> in a \<open>catch\<close> block: an exception of the
  normalizer or of the conversion leaves the block as it is.
\<close>

definition rethrow_with :: "string \<Rightarrow> jsval \<Rightarrow> ('e, 'a) async" where
  "rethrow_with prefix err =
     (case normalized_text err of
        Inl exn \<Rightarrow> reject exn
      | Inr errorMessage \<Rightarrow> reject (new_Error (prefix @ errorMessage)))"

section \<open>Credential manager (\<open>authService.ts\<close>)\<close>

definition ACCESS_TOKEN :: string where "ACCESS_TOKEN = ''google_access_token''"
definition EXPIRES_AT :: string where "EXPIRES_AT = ''google_token_expires_at''"
definition SHEET_ID :: string where "SHEET_ID = ''google_sheet_id''"

text \<open>A value read from \<open>localStorage\<close> is a string or \<open>null\<close>; \<open>''\<close> and \<open>null\<close> are falsy.\<close>

fun present :: "string option \<Rightarrow> bool" where
  "present None = False"
| "present (Some s) = (s \<noteq> [])"

fun text_of :: "string option \<Rightarrow> string" where
  "text_of None = []"
| "text_of (Some s) = s"

definition storeSheetId :: "string \<Rightarrow> 'e world \<Rightarrow> 'e world" where
  "storeSheetId sheetId w = w\<lparr>localStorage := (localStorage w)(SHEET_ID \<mapsto> sheetId)\<rparr>"

definition getStoredSheetId :: "'e world \<Rightarrow> string option" where
  "getStoredSheetId w = localStorage w SHEET_ID"

definition clearSheetId :: "'e world \<Rightarrow> 'e world" where
  "clearSheetId w = w\<lparr>localStorage := (localStorage w)(SHEET_ID := None)\<rparr>"

definition storeTokens :: "string \<Rightarrow> jsnum \<Rightarrow> 'e world \<Rightarrow> 'e world" where
  "storeTokens accessToken expiresAt w =
     w\<lparr>localStorage :=
         (localStorage w)(ACCESS_TOKEN \<mapsto> accessToken,
                          EXPIRES_AT \<mapsto> number_to_string expiresAt)\<rparr>"

definition clearStoredTokens :: "'e world \<Rightarrow> 'e world" where
  "clearStoredTokens w =
     w\<lparr>localStorage :=
         (localStorage w)(ACCESS_TOKEN := None, EXPIRES_AT := None, SHEET_ID := None)\<rparr>"

text \<open>
  The callback \<open>signIn\<close> sets on the token client, run on the response (to its end, see
  \<open>requestAccessToken\<close> above).
\<close>

definition signIn_callback :: "'e platform \<Rightarrow> TokenResponse \<Rightarrow> ('e, unit) async" where
  "signIn_callback p response w =
     (if present (error response) then reject (new_Error (text_of (error response))) w
      else
        let expiresAt = expiry_from (Date_now p (env w)) (parseInt (expires_in response) None);
            w1 = storeTokens (access_token response) expiresAt w
        in resolve () (w1\<lparr>gapi_token := Some (access_token response)\<rparr>))"

text \<open>
  \<open>signIn\<close>.  The body runs in the executor of a promise, so an exception of
  \<open>gapi.client.setToken\<close> where the stored token is reused rejects the promise.
\<close>

definition signIn :: "'e platform \<Rightarrow> ('e, unit) async" where
  "signIn p w0 =
     (let w = record_call Ev_signIn w0 in
      if \<not> tokenClient w then reject (new_Error ''Google Auth not initialized'') w
      else
        let storedToken = localStorage w ACCESS_TOKEN;
            expiresAt = localStorage w EXPIRES_AT
        in if present storedToken \<and> present expiresAt
              \<and> js_less (Fin (of_int (Date_now p (env w)))) (parseInt (text_of expiresAt) None)
           then (case client_access p (env w) of
                   Some exn \<Rightarrow> reject exn w
                 | None \<Rightarrow> resolve () (w\<lparr>gapi_token := storedToken\<rparr>))
           else
             (case requestAccessToken p (env w) of
                (response, e') \<Rightarrow>
                  signIn_callback p response
                    (record_call Ev_requestAccessToken (w\<lparr>env := e'\<rparr>))))"

text \<open>
  \<open>signOut\<close>.  The whole body is in a \<open>try\<close> whose \<open>catch\<close> logs and rethrows:
  \<open>gapi.client.getToken()\<close> throws when \<open>gapi.client\<close> cannot be read, before anything
  else is done; with a token attached, \<open>revoke\<close> or \<open>gapi.client.setToken(null)\<close> can
  throw; \<open>clearStoredTokens()\<close> is the last statement, reached when nothing has thrown.
\<close>

definition signOut :: "'e platform \<Rightarrow> ('e, unit) async" where
  "signOut p w =
     (case client_access p (env w) of
        Some exn \<Rightarrow> reject exn w
      | None \<Rightarrow>
          (case gapi_token w of
             Some token \<Rightarrow>
               (case revoke p token (env w) of
                  (Some exn, e') \<Rightarrow> reject exn (record_call (Ev_revoke token) (w\<lparr>env := e'\<rparr>))
                | (None, e') \<Rightarrow>
                    (case client_access p e' of
                       Some exn \<Rightarrow> reject exn (record_call (Ev_revoke token) (w\<lparr>env := e'\<rparr>))
                     | None \<Rightarrow>
                         resolve ()
                           (clearStoredTokens
                              ((record_call (Ev_revoke token) (w\<lparr>env := e'\<rparr>))
                                 \<lparr>gapi_token := None\<rparr>))))
           | None \<Rightarrow> resolve () (clearStoredTokens w)))"

definition isAuthenticated :: "'e platform \<Rightarrow> 'e world \<Rightarrow> bool" where
  "isAuthenticated p w =
     (let storedToken = localStorage w ACCESS_TOKEN;
          expiresAt = localStorage w EXPIRES_AT
      in if \<not> present storedToken \<or> \<not> present expiresAt then False
         else js_less (Fin (of_int (Date_now p (env w)))) (parseInt (text_of expiresAt) (Some 10)))"

text \<open>\<open>getAccessToken\<close> never rejects: the result is the token or \<open>null\<close>.\<close>

definition getAccessToken :: "'e platform \<Rightarrow> 'e world \<Rightarrow> string option \<times> 'e world" where
  "getAccessToken p w =
     (let storedToken = localStorage w ACCESS_TOKEN;
          expiresAt = localStorage w EXPIRES_AT
      in if \<not> present storedToken \<or> \<not> present expiresAt then (None, w)
         else if js_less (Fin (of_int (Date_now p (env w))))
                   (parseInt (text_of expiresAt) (Some 10))
         then (storedToken, w)
         else (case signIn p w of
                 (Inr u, w') \<Rightarrow> (localStorage w' ACCESS_TOKEN, w')
               | (Inl e, w') \<Rightarrow> (None, w')))"

section \<open>Resource resolver (\<open>sheetsService.ts\<close>)\<close>

definition SHEET_TITLE :: string where "SHEET_TITLE = ''representante_medico__app''"
definition FARMACIAS_TAB :: string where "FARMACIAS_TAB = ''farmacias''"
definition MEDICOS_TAB :: string where "MEDICOS_TAB = ''medicos''"

definition FARMACIAS_HEADERS :: "string list" where
  "FARMACIAS_HEADERS =
     [''id'', ''createdAt'', ''email'', ''phone'', ''territorio'', ''pais'', ''estado'',
      ''municipio'', ''colonia'', ''calle'', ''estatus'', ''codigoPostal'', ''ruta'',
      ''nombreCuenta'', ''plantillaClientes'', ''folioTienda'', ''cedulaProfesional'',
      ''grupoCadena'', ''especialidad'', ''categoriaMedico'', ''propietarioCuenta'',
      ''lat'', ''lng'', ''googleMapsUrl'', ''nombreBrick'']"

definition MEDICOS_HEADERS :: "string list" where
  "MEDICOS_HEADERS =
     [''id'', ''createdAt'', ''email'', ''phone'', ''estado'', ''ciudad'', ''colonia'',
      ''calle'', ''estatus'', ''codigoPostal'', ''nombreCuenta'', ''especialidad'',
      ''nombreBrick'', ''lat'', ''lng'', ''googleMapsUrl'']"

text \<open>
  \<open>ensureAuthenticated\<close>: without a token it throws; with one it sets it on
  \<open>gapi.client\<close>, which throws when \<open>gapi.client\<close> cannot be read.
\<close>

definition ensureAuthenticated :: "'e platform \<Rightarrow> ('e, unit) async" where
  "ensureAuthenticated p w =
     (case getAccessToken p w of
        (accessToken, w') \<Rightarrow>
          if \<not> present accessToken then reject (new_Error ''Not authenticated'') w'
          else (case client_access p (env w') of
                  Some exn \<Rightarrow> reject exn w'
                | None \<Rightarrow> resolve () (w'\<lparr>gapi_token := accessToken\<rparr>)))"

definition findExistingSheet :: "'e platform \<Rightarrow> ('e, string option) async" where
  "findExistingSheet p w =
     await (ensureAuthenticated p)
       (\<lambda>_. try_catch
          (await (call_out (files_list p))
             (\<lambda>files.
                case files of
                  Some (f # fs) \<Rightarrow>
                    resolve (if present (file_id f) then file_id f else None)
                | _ \<Rightarrow> resolve None))
          (rethrow_with ''Failed to search for existing sheet: ''))
       (record_call Ev_findExistingSheet w)"

definition writeHeaders :: "'e platform \<Rightarrow> string \<Rightarrow> ('e, unit) async" where
  "writeHeaders p spreadsheetId w =
     await (ensureAuthenticated p)
       (\<lambda>_. try_catch
          (call_out
             (values_batchUpdate p spreadsheetId
                [(FARMACIAS_TAB @ ''!A1'', [map CStr FARMACIAS_HEADERS]),
                 (MEDICOS_TAB @ ''!A1'', [map CStr MEDICOS_HEADERS])]))
          (rethrow_with ''Failed to write headers: ''))
       (record_call (Ev_writeHeaders spreadsheetId) w)"

definition createSheet :: "'e platform \<Rightarrow> ('e, string) async" where
  "createSheet p w =
     await (ensureAuthenticated p)
       (\<lambda>_. try_catch
          (await (call_out (spreadsheets_create p SHEET_TITLE [FARMACIAS_TAB, MEDICOS_TAB]))
             (\<lambda>spreadsheetId.
                if \<not> present spreadsheetId
                then reject (new_Error ''Failed to create sheet - no spreadsheet ID returned'')
                else await (writeHeaders p (text_of spreadsheetId))
                       (\<lambda>_. resolve (text_of spreadsheetId))))
          (rethrow_with ''Failed to create sheet: ''))
       (record_call Ev_createSheet w)"

definition verifySheetExists :: "'e platform \<Rightarrow> string \<Rightarrow> ('e, unit) async" where
  "verifySheetExists p spreadsheetId w =
     await (ensureAuthenticated p)
       (\<lambda>_. try_catch
          (call_out (spreadsheets_get p spreadsheetId))
          (rethrow_with
             (''Sheet not found or not accessible ('' @ spreadsheetId @ ''): '')))
       (record_call (Ev_verifySheetExists spreadsheetId) w)"

text \<open>
  \<open>initializeSheet\<close>, in its three blocks.  The last block: create a new sheet; a
  failure is logged and thrown on.
\<close>

definition initializeSheet_create :: "'e platform \<Rightarrow> ('e, string) async" where
  "initializeSheet_create p =
     try_catch
       (await (createSheet p) (\<lambda>sheetId w. resolve sheetId (storeSheetId sheetId w)))
       (\<lambda>error. reject error)"

text \<open>
  The middle block: search Drive; a sheet that is found is stored and returned; a
  failure of the search is logged (\<open>will create new one\<close>) and the last block follows, as
  it does when nothing is found.
\<close>

definition initializeSheet_search :: "'e platform \<Rightarrow> ('e, string) async" where
  "initializeSheet_search p w =
     (case findExistingSheet p w of
        (Inr existingSheetId, w') \<Rightarrow>
          if present existingSheetId
          then resolve (text_of existingSheetId) (storeSheetId (text_of existingSheetId) w')
          else initializeSheet_create p w'
      | (Inl err, w') \<Rightarrow> initializeSheet_create p w')"

text \<open>
  The first block: a stored sheet ID is verified and returned; when the verification
  fails a warning is logged and the middle block follows.
\<close>

definition initializeSheet :: "'e platform \<Rightarrow> ('e, string) async" where
  "initializeSheet p w =
     (let storedSheetId = getStoredSheetId w in
      if present storedSheetId then
        (case verifySheetExists p (text_of storedSheetId) w of
           (Inr u, w') \<Rightarrow> resolve (text_of storedSheetId) w'
         | (Inl err, w') \<Rightarrow> initializeSheet_search p w')
      else initializeSheet_search p w)"

section \<open>Record store (\<open>sheetsService.ts\<close>)\<close>

text \<open>
  The two entities.  The field names of \<open>Farmacia\<close> carry the prefix \<open>f_\<close> and those of
  \<open>Medico\<close> the prefix \<open>m_\<close>, since a field name can belong to one record only.  An
  optional field is \<open>None\<close> when it is \<open>undefined\<close>.  The records of the fields without
  \<open>id\<close> and \<open>createdAt\<close> are the arguments of the write functions
  (\<open>Omit<Farmacia, 'id' | 'createdAt'>\<close>).
\<close>

record Farmacia_fields =
  f_email :: "string option"
  f_phone :: "string option"
  f_territorio :: "string option"
  f_pais :: "string option"
  f_estado :: "string option"
  f_municipio :: "string option"
  f_colonia :: "string option"
  f_calle :: "string option"
  f_estatus :: "string option"
  f_codigoPostal :: "string option"
  f_ruta :: "string option"
  f_nombreCuenta :: "string option"
  f_plantillaClientes :: "string option"
  f_folioTienda :: "string option"
  f_cedulaProfesional :: "string option"
  f_grupoCadena :: "string option"
  f_especialidad :: "string option"
  f_categoriaMedico :: "string option"
  f_propietarioCuenta :: "string option"
  f_lat :: "jsnum option"
  f_lng :: "jsnum option"
  f_googleMapsUrl :: "string option"
  f_nombreBrick :: "string option"

record Farmacia = Farmacia_fields +
  f_id :: string
  f_createdAt :: string

record Medico_fields =
  m_email :: "string option"
  m_phone :: "string option"
  m_estado :: "string option"
  m_ciudad :: "string option"
  m_colonia :: "string option"
  m_calle :: "string option"
  m_estatus :: "string option"
  m_codigoPostal :: "string option"
  m_nombreCuenta :: "string option"
  m_especialidad :: "string option"
  m_nombreBrick :: "string option"
  m_lat :: "jsnum option"
  m_lng :: "jsnum option"
  m_googleMapsUrl :: "string option"

record Medico = Medico_fields +
  m_id :: string
  m_createdAt :: string

text \<open>
  \<open>row[i]\<close>: \<open>undefined\<close> beyond the end of the row.  \<open>row[i] || ''\<close> is \<open>text_of\<close> of it.
\<close>

definition cell_at :: "string list \<Rightarrow> nat \<Rightarrow> string option" where
  "cell_at row i = (if i < length row then Some (row ! i) else None)"

text \<open>\<open>row[i] || undefined\<close>.\<close>

definition or_undefined :: "string option \<Rightarrow> string option" where
  "or_undefined c = (if present c then c else None)"

text \<open>\<open>row[i] ? parseFloat(row[i]) : undefined\<close>.\<close>

definition number_or_undefined :: "string option \<Rightarrow> jsnum option" where
  "number_or_undefined c = (if present c then Some (parseFloat (text_of c)) else None)"

text \<open>\<open>x ?? ''\<close> for an optional number.\<close>

fun number_or_empty :: "jsnum option \<Rightarrow> cell" where
  "number_or_empty None = CStr []"
| "number_or_empty (Some n) = CNum n"

definition rowToFarmacia :: "string list \<Rightarrow> Farmacia" where
  "rowToFarmacia row =
     \<lparr>f_email = or_undefined (cell_at row 2),
      f_phone = or_undefined (cell_at row 3),
      f_territorio = or_undefined (cell_at row 4),
      f_pais = or_undefined (cell_at row 5),
      f_estado = or_undefined (cell_at row 6),
      f_municipio = or_undefined (cell_at row 7),
      f_colonia = or_undefined (cell_at row 8),
      f_calle = or_undefined (cell_at row 9),
      f_estatus = or_undefined (cell_at row 10),
      f_codigoPostal = or_undefined (cell_at row 11),
      f_ruta = or_undefined (cell_at row 12),
      f_nombreCuenta = or_undefined (cell_at row 13),
      f_plantillaClientes = or_undefined (cell_at row 14),
      f_folioTienda = or_undefined (cell_at row 15),
      f_cedulaProfesional = or_undefined (cell_at row 16),
      f_grupoCadena = or_undefined (cell_at row 17),
      f_especialidad = or_undefined (cell_at row 18),
      f_categoriaMedico = or_undefined (cell_at row 19),
      f_propietarioCuenta = or_undefined (cell_at row 20),
      f_lat = number_or_undefined (cell_at row 21),
      f_lng = number_or_undefined (cell_at row 22),
      f_googleMapsUrl = or_undefined (cell_at row 23),
      f_nombreBrick = or_undefined (cell_at row 24),
      f_id = text_of (cell_at row 0),
      f_createdAt = text_of (cell_at row 1)\<rparr>"

definition rowToMedico :: "string list \<Rightarrow> Medico" where
  "rowToMedico row =
     \<lparr>m_email = or_undefined (cell_at row 2),
      m_phone = or_undefined (cell_at row 3),
      m_estado = or_undefined (cell_at row 4),
      m_ciudad = or_undefined (cell_at row 5),
      m_colonia = or_undefined (cell_at row 6),
      m_calle = or_undefined (cell_at row 7),
      m_estatus = or_undefined (cell_at row 8),
      m_codigoPostal = or_undefined (cell_at row 9),
      m_nombreCuenta = or_undefined (cell_at row 10),
      m_especialidad = or_undefined (cell_at row 11),
      m_nombreBrick = or_undefined (cell_at row 12),
      m_lat = number_or_undefined (cell_at row 13),
      m_lng = number_or_undefined (cell_at row 14),
      m_googleMapsUrl = or_undefined (cell_at row 15),
      m_id = text_of (cell_at row 0),
      m_createdAt = text_of (cell_at row 1)\<rparr>"

definition farmaciaToRow :: "Farmacia \<Rightarrow> cell list" where
  "farmaciaToRow farmacia =
     [CStr (f_id farmacia),
      CStr (f_createdAt farmacia),
      CStr (text_of (f_email farmacia)),
      CStr (text_of (f_phone farmacia)),
      CStr (text_of (f_territorio farmacia)),
      CStr (text_of (f_pais farmacia)),
      CStr (text_of (f_estado farmacia)),
      CStr (text_of (f_municipio farmacia)),
      CStr (text_of (f_colonia farmacia)),
      CStr (text_of (f_calle farmacia)),
      CStr (text_of (f_estatus farmacia)),
      CStr (text_of (f_codigoPostal farmacia)),
      CStr (text_of (f_ruta farmacia)),
      CStr (text_of (f_nombreCuenta farmacia)),
      CStr (text_of (f_plantillaClientes farmacia)),
      CStr (text_of (f_folioTienda farmacia)),
      CStr (text_of (f_cedulaProfesional farmacia)),
      CStr (text_of (f_grupoCadena farmacia)),
      CStr (text_of (f_especialidad farmacia)),
      CStr (text_of (f_categoriaMedico farmacia)),
      CStr (text_of (f_propietarioCuenta farmacia)),
      number_or_empty (f_lat farmacia),
      number_or_empty (f_lng farmacia),
      CStr (text_of (f_googleMapsUrl farmacia)),
      CStr (text_of (f_nombreBrick farmacia))]"

definition medicoToRow :: "Medico \<Rightarrow> cell list" where
  "medicoToRow medico =
     [CStr (m_id medico),
      CStr (m_createdAt medico),
      CStr (text_of (m_email medico)),
      CStr (text_of (m_phone medico)),
      CStr (text_of (m_estado medico)),
      CStr (text_of (m_ciudad medico)),
      CStr (text_of (m_colonia medico)),
      CStr (text_of (m_calle medico)),
      CStr (text_of (m_estatus medico)),
      CStr (text_of (m_codigoPostal medico)),
      CStr (text_of (m_nombreCuenta medico)),
      CStr (text_of (m_especialidad medico)),
      CStr (text_of (m_nombreBrick medico)),
      number_or_empty (m_lat medico),
      number_or_empty (m_lng medico),
      CStr (text_of (m_googleMapsUrl medico))]"

subsection \<open>Identifiers and timestamps\<close>

text \<open>A number in decimal digits, padded with zeros on the left to a width.\<close>

definition pad :: "nat \<Rightarrow> nat \<Rightarrow> string" where
  "pad width n =
     replicate (width - length (nat_to_radix 10 n)) CHR ''0'' @ nat_to_radix 10 n"

text \<open>
  The year, month and day of a number of days since 1 January 1970, in the proleptic
  Gregorian calendar.
\<close>

definition civil_from_days :: "int \<Rightarrow> int \<times> nat \<times> nat" where
  "civil_from_days z0 =
     (let z = z0 + 719468;
          era = z div 146097;
          doe = z - era * 146097;
          yoe = (doe - doe div 1460 + doe div 36524 - doe div 146096) div 365;
          doy = doe - (365 * yoe + yoe div 4 - yoe div 100);
          mp = (5 * doy + 2) div 153;
          d = doy - (153 * mp + 2) div 5 + 1;
          m = (if mp < 10 then mp + 3 else mp - 9);
          y = yoe + era * 400 + (if m \<le> 2 then 1 else 0)
      in (y, nat m, nat d))"

text \<open>
  \<open>new Date(t).toISOString()\<close> for a time \<open>t\<close> in milliseconds since the epoch:
  \<open>YYYY-MM-DDTHH:mm:ss.sssZ\<close>, the year with a sign and six digits outside 0 to 9999.
\<close>

definition toISOString :: "int \<Rightarrow> string" where
  "toISOString t =
     (let (y, m, d) = civil_from_days (t div 86400000);
          ms = nat (t mod 86400000)
      in (if 0 \<le> y \<and> y \<le> 9999 then pad 4 (nat y)
          else (if y < 0 then ''-'' else ''+'') @ pad 6 (nat \<bar>y\<bar>))
         @ ''-'' @ pad 2 m @ ''-'' @ pad 2 d @ ''T''
         @ pad 2 (ms div 3600000) @ '':'' @ pad 2 (ms div 60000 mod 60) @ '':''
         @ pad 2 (ms div 1000 mod 60) @ ''.'' @ pad 3 (ms mod 1000) @ ''Z'')"

text \<open>
  \<open>generateId\<close>: the time in base 36, a dash, and seven characters of the random
  number in base 36 after its \<open>0.\<close>.
\<close>

definition generateId :: "'e platform \<Rightarrow> 'e \<Rightarrow> string \<times> 'e" where
  "generateId p e =
     (let timestamp = int_to_radix 36 (Date_now p e) in
      case Math_random p e of
        (text, e') \<Rightarrow> (timestamp @ ''-'' @ take 7 (drop 2 text), e'))"

subsection \<open>Reading and writing\<close>

definition readFarmacias :: "'e platform \<Rightarrow> ('e, Farmacia list) async" where
  "readFarmacias p =
     try_catch
       (await (initializeSheet p)
          (\<lambda>sheetId. await (ensureAuthenticated p)
             (\<lambda>_. await (call_out (values_get p sheetId (FARMACIAS_TAB @ ''!A2:Z'')))
                (\<lambda>values.
                   resolve (map rowToFarmacia (case values of None \<Rightarrow> [] | Some rows \<Rightarrow> rows))))))
       (rethrow_with ''Failed to read farmacias: '')"

definition readMedicos :: "'e platform \<Rightarrow> ('e, Medico list) async" where
  "readMedicos p =
     try_catch
       (await (initializeSheet p)
          (\<lambda>sheetId. await (ensureAuthenticated p)
             (\<lambda>_. await (call_out (values_get p sheetId (MEDICOS_TAB @ ''!A2:Z'')))
                (\<lambda>values.
                   resolve (map rowToMedico (case values of None \<Rightarrow> [] | Some rows \<Rightarrow> rows))))))
       (rethrow_with ''Failed to read medicos: '')"

text \<open>
  The object \<open>{id: generateId(), createdAt: new Date().toISOString(), ...farmacia}\<close>,
  built in the state \<open>w\<close>, with the state after the call of \<open>Math.random\<close>.
\<close>

definition newFarmacia :: "'e platform \<Rightarrow> Farmacia_fields \<Rightarrow> 'e world \<Rightarrow> Farmacia \<times> 'e world" where
  "newFarmacia p farmacia w =
     (case generateId p (env w) of
        (i, e') \<Rightarrow>
          (Farmacia_fields.extend farmacia
             (Farmacia.fields i (toISOString (Date_now p e'))),
           w\<lparr>env := e'\<rparr>))"

definition newMedico :: "'e platform \<Rightarrow> Medico_fields \<Rightarrow> 'e world \<Rightarrow> Medico \<times> 'e world" where
  "newMedico p medico w =
     (case generateId p (env w) of
        (i, e') \<Rightarrow>
          (Medico_fields.extend medico
             (Medico.fields i (toISOString (Date_now p e'))),
           w\<lparr>env := e'\<rparr>))"

definition writeFarmacia :: "'e platform \<Rightarrow> Farmacia_fields \<Rightarrow> ('e, Farmacia) async" where
  "writeFarmacia p farmacia =
     try_catch
       (await (initializeSheet p)
          (\<lambda>sheetId. await (ensureAuthenticated p)
             (\<lambda>_ w.
                case newFarmacia p farmacia w of
                  (new, w') \<Rightarrow>
                    await
                      (call_out
                         (values_append p sheetId (FARMACIAS_TAB @ ''!A:Z'')
                            [farmaciaToRow new]))
                      (\<lambda>_. resolve new) w')))
       (rethrow_with ''Failed to write farmacia: '')"

definition writeMedico :: "'e platform \<Rightarrow> Medico_fields \<Rightarrow> ('e, Medico) async" where
  "writeMedico p medico =
     try_catch
       (await (initializeSheet p)
          (\<lambda>sheetId. await (ensureAuthenticated p)
             (\<lambda>_ w.
                case newMedico p medico w of
                  (new, w') \<Rightarrow>
                    await
                      (call_out
                         (values_append p sheetId (MEDICOS_TAB @ ''!A:Z'')
                            [medicoToRow new]))
                      (\<lambda>_. resolve new) w')))
       (rethrow_with ''Failed to write medico: '')"

text \<open>
  What the amended C10 says of a numeric field read from the cell \<open>c\<close>: \<open>undefined\<close> when
  the cell is absent or empty, else the result of \<open>parseFloat\<close>, which is \<open>NaN\<close> when the
  text has no numeric prefix.
\<close>

definition reads_number :: "string option \<Rightarrow> jsnum option \<Rightarrow> bool" where
  "reads_number c v =
     ((c = None \<or> c = Some [] \<longrightarrow> v = None)
      \<and> (\<forall>s. c = Some s \<and> s \<noteq> [] \<longrightarrow> v = Some (parseFloat s)))"

section \<open>Initialization (\<open>initializeGoogleApi\<close>)\<close>

text \<open>
  The initialization is the one place where operations interleave: calls of
  \<open>initializeGoogleApi\<close> arrive while earlier ones wait for the libraries.  It is
  modelled by its events.  A promise is a number; \<open>promises\<close> gives its settlement.  A
  bootstrap is the run of the executor passed to \<open>new Promise\<close>; it is named by the
  promise it settles.  \<open>executor\<close> tells where the executor's own body stands (waiting
  for \<open>gapi\<close>, waiting for Google Identity Services, or finished) and \<open>client_load\<close>
  where the callback of \<open>gapi.load\<close> stands.  \<open>started\<close> counts the bootstraps begun.
\<close>

datatype settlement = Pending | Fulfilled | Rejected jsval

datatype executor_phase = Wait_gapi | Wait_gis | Executor_done

datatype load_phase = Loading | Load_done

record page_init = auth_module +
  promises :: "nat \<Rightarrow> settlement"
  allocated :: nat
  executor :: "nat \<rightharpoonup> executor_phase"
  client_load :: "nat \<rightharpoonup> load_phase"
  started :: nat

text \<open>\<open>resolve()\<close> and \<open>reject(error)\<close>: only the first settlement of a promise counts.\<close>

definition settle :: "nat \<Rightarrow> settlement \<Rightarrow> page_init \<Rightarrow> page_init" where
  "settle q v s = (if promises s q = Pending then s\<lparr>promises := (promises s)(q := v)\<rparr> else s)"

definition checkReady :: "nat \<Rightarrow> page_init \<Rightarrow> page_init" where
  "checkReady q s = (if gapiInited s \<and> gisInited s then settle q Fulfilled s else s)"

text \<open>
  A call returns the promise its caller awaits: the memoized one, a fulfilled one when
  both libraries are initialized, or that of the bootstrap it starts.
\<close>

definition initializeGoogleApi :: "page_init \<Rightarrow> nat \<times> page_init" where
  "initializeGoogleApi s =
     (case initPromise s of
        Some q \<Rightarrow> (q, s)
      | None \<Rightarrow>
          if gapiInited s \<and> gisInited s
          then (allocated s,
                s\<lparr>promises := (promises s)(allocated s := Fulfilled),
                  allocated := Suc (allocated s)\<rparr>)
          else (allocated s,
                s\<lparr>promises := (promises s)(allocated s := Pending),
                  allocated := Suc (allocated s),
                  executor := (executor s)(allocated s \<mapsto> Wait_gapi),
                  started := Suc (started s),
                  initPromise := Some (allocated s)\<rparr>))"

text \<open>
  What can happen to a bootstrap: the first \<open>waitForGlobal\<close> resolves (and \<open>gapi.load\<close>
  is called), or it times out or \<open>gapi.load\<close> throws; the callback of \<open>gapi.load\<close> finishes \<open>init\<close> and both
  \<open>load\<close>s, or one of them rejects; the second \<open>waitForGlobal\<close> resolves and the token
  client is made, or it times out or \<open>initTokenClient\<close> throws.  The outer \<open>catch\<close> clears
  \<open>initPromise\<close> before it rejects; the \<open>catch\<close> inside the callback only rejects.
\<close>

datatype signal =
    Gapi_available nat
  | Gapi_failed nat jsval
  | Client_ready nat
  | Client_failed nat jsval
  | Gis_available nat
  | Gis_failed nat jsval

fun deliver :: "signal \<Rightarrow> page_init \<Rightarrow> page_init" where
  "deliver (Gapi_available q) s =
     (if executor s q = Some Wait_gapi
      then s\<lparr>executor := (executor s)(q \<mapsto> Wait_gis),
             client_load := (client_load s)(q \<mapsto> Loading)\<rparr>
      else s)"
| "deliver (Gapi_failed q err) s =
     (if executor s q = Some Wait_gapi
      then settle q (Rejected err)
             (s\<lparr>executor := (executor s)(q \<mapsto> Executor_done), initPromise := None\<rparr>)
      else s)"
| "deliver (Client_ready q) s =
     (if client_load s q = Some Loading
      then checkReady q
             (s\<lparr>client_load := (client_load s)(q \<mapsto> Load_done), gapiInited := True\<rparr>)
      else s)"
| "deliver (Client_failed q err) s =
     (if client_load s q = Some Loading
      then settle q (Rejected err) (s\<lparr>client_load := (client_load s)(q \<mapsto> Load_done)\<rparr>)
      else s)"
| "deliver (Gis_available q) s =
     (if executor s q = Some Wait_gis
      then checkReady q
             (s\<lparr>executor := (executor s)(q \<mapsto> Executor_done), tokenClient := True,
                gisInited := True\<rparr>)
      else s)"
| "deliver (Gis_failed q err) s =
     (if executor s q = Some Wait_gis
      then settle q (Rejected err)
             (s\<lparr>executor := (executor s)(q \<mapsto> Executor_done), initPromise := None\<rparr>)
      else s)"

text \<open>A history of the page: calls and signals, from the moment the page is loaded.\<close>

datatype action = Call | Signal signal

fun perform :: "action \<Rightarrow> page_init \<Rightarrow> page_init" where
  "perform Call s = snd (initializeGoogleApi s)"
| "perform (Signal sig) s = deliver sig s"

definition page_loaded :: page_init where
  "page_loaded =
     \<lparr>tokenClient = False, gapiInited = False, gisInited = False, initPromise = None,
      promises = (\<lambda>q. Pending), allocated = 0, executor = Map.empty, client_load = Map.empty,
      started = 0\<rparr>"

definition after :: "action list \<Rightarrow> page_init" where
  "after acts = foldl (\<lambda>s a. perform a s) page_loaded acts"

text \<open>\<open>n\<close> calls in a row, with the promises they return.\<close>

fun repeat_calls :: "nat \<Rightarrow> page_init \<Rightarrow> nat list \<times> page_init" where
  "repeat_calls 0 s = ([], s)"
| "repeat_calls (Suc n) s =
     (case initializeGoogleApi s of
        (q, s') \<Rightarrow> (case repeat_calls n s' of (qs, s'') \<Rightarrow> (q # qs, s'')))"

text \<open>
  What holds of every state a history leads to: a bootstrap whose executor still waits,
  or whose promise is pending or fulfilled, owns \<open>initPromise\<close>; and once Google
  Identity Services is initialized no executor waits and \<open>initPromise\<close> is set.
\<close>

definition init_invariant :: "page_init \<Rightarrow> bool" where
  "init_invariant s =
     ((\<forall>q. client_load s q \<noteq> None \<longrightarrow> executor s q \<noteq> None)
      \<and> (\<forall>q. executor s q \<noteq> None \<longrightarrow> q < allocated s)
      \<and> (\<forall>q. executor s q = Some Wait_gapi \<or> executor s q = Some Wait_gis \<longrightarrow>
             initPromise s = Some q)
      \<and> (\<forall>q. executor s q \<noteq> None \<and> (promises s q = Pending \<or> promises s q = Fulfilled) \<longrightarrow>
             initPromise s = Some q)
      \<and> (\<forall>q. executor s q \<noteq> None \<and> promises s q = Fulfilled \<longrightarrow> gisInited s)
      \<and> (gisInited s \<longrightarrow>
            initPromise s \<noteq> None
            \<and> (\<forall>q. executor s q \<noteq> Some Wait_gapi \<and> executor s q \<noteq> Some Wait_gis)))"

section \<open>A remote service\<close>

text \<open>
  Modelled from the spec: the identity service, Drive and Sheets behind the declared
  \<open>gapi\<close> and \<open>google.accounts.oauth2\<close> interfaces, whose implementation is not in the
  repository (spec section 6, the remote transport surface: list resources by name, newest
  first; create a resource with its partitions; get its metadata, failing when it is not
  found; read a range; append a row; write ranges; request a token; revoke a token).
  It is an instance of the parameter, used where a property needs a remote that keeps
  what is written to it, and for concrete runs.

  The clock stands still; the identity service gives the same answer to every request;
  \<open>drive_down\<close> and \<open>sheets_down\<close>, when set, make every call of that service reject with
  the given value; the page has loaded \<open>gapi\<close> and its client.
\<close>

record remote =
  clock :: int
  random_text :: string
  identity :: TokenResponse
  revoke_exn :: "jsval option"
  drive_down :: "jsval option"
  sheets_down :: "jsval option"
  files :: "(string \<times> (string \<times> cell list list) list) list"

definition not_found :: jsval where
  "not_found =
     JObj [(''result'',
            JObj [(''error'',
                   JObj [(''code'', JNum (Fin 404)),
                         (''message'', JStr ''Requested entity was not found.'')])])]"

text \<open>The tab and the first row of a range such as \<open>farmacias!A2:Z\<close>.\<close>

definition range_tab :: "string \<Rightarrow> string" where
  "range_tab rng = takeWhile (\<lambda>c. c \<noteq> CHR ''!'') rng"

definition range_first_row :: "string \<Rightarrow> nat" where
  "range_first_row rng =
     (let ds = takeWhile (is_digit_in 10)
                 (dropWhile (\<lambda>c. \<not> is_digit_in 10 c) (dropWhile (\<lambda>c. c \<noteq> CHR ''!'') rng))
      in if ds = [] then 1 else digits_value 10 ds)"

fun render_cell :: "cell \<Rightarrow> string" where
  "render_cell (CStr s) = s"
| "render_cell (CNum n) = number_to_string n"

definition tab_rows :: "(string \<times> cell list list) list \<Rightarrow> string \<Rightarrow> cell list list" where
  "tab_rows tabs t = (case map_of tabs t of None \<Rightarrow> [] | Some rows \<Rightarrow> rows)"

definition set_tab ::
  "string \<Rightarrow> cell list list \<Rightarrow> (string \<times> cell list list) list \<Rightarrow> (string \<times> cell list list) list"
where
  "set_tab t rows tabs = (t, rows) # filter (\<lambda>(t', _). t' \<noteq> t) tabs"

definition set_file ::
  "string \<Rightarrow> (string \<times> cell list list) list \<Rightarrow> remote \<Rightarrow> remote" where
  "set_file i tabs e = e\<lparr>files := map (\<lambda>(j, ts). if j = i then (j, tabs) else (j, ts)) (files e)\<rparr>"

definition remote_get :: "string \<Rightarrow> remote \<Rightarrow> unit js_result \<times> remote" where
  "remote_get i e =
     (case sheets_down e of
        Some err \<Rightarrow> (Inl err, e)
      | None \<Rightarrow> (if map_of (files e) i = None then (Inl not_found, e) else (Inr (), e)))"

definition remote_list :: "remote \<Rightarrow> drive_file list option js_result \<times> remote" where
  "remote_list e =
     (case drive_down e of
        Some err \<Rightarrow> (Inl err, e)
      | None \<Rightarrow>
          (Inr (Some (map (\<lambda>(i, ts). \<lparr>file_id = Some i, file_name = Some SHEET_TITLE\<rparr>)
                        (files e))), e))"

definition remote_create ::
  "string \<Rightarrow> string list \<Rightarrow> remote \<Rightarrow> string option js_result \<times> remote" where
  "remote_create title tabs e =
     (case sheets_down e of
        Some err \<Rightarrow> (Inl err, e)
      | None \<Rightarrow>
          (let i = ''sheet-'' @ nat_to_radix 10 (length (files e))
           in (Inr (Some i), e\<lparr>files := (i, map (\<lambda>t. (t, [])) tabs) # files e\<rparr>)))"

fun write_ranges ::
  "(string \<times> cell list list) list \<Rightarrow> (string \<times> cell list list) list
     \<Rightarrow> (string \<times> cell list list) list" where
  "write_ranges [] tabs = tabs"
| "write_ranges ((rng, vals) # ds) tabs =
     write_ranges ds
       (set_tab (range_tab rng)
          (vals @ drop (length vals) (tab_rows tabs (range_tab rng))) tabs)"

definition remote_batchUpdate ::
  "string \<Rightarrow> (string \<times> cell list list) list \<Rightarrow> remote \<Rightarrow> unit js_result \<times> remote" where
  "remote_batchUpdate i data e =
     (case sheets_down e of
        Some err \<Rightarrow> (Inl err, e)
      | None \<Rightarrow>
          (case map_of (files e) i of
             None \<Rightarrow> (Inl not_found, e)
           | Some tabs \<Rightarrow> (Inr (), set_file i (write_ranges data tabs) e)))"

definition remote_values_get ::
  "string \<Rightarrow> string \<Rightarrow> remote \<Rightarrow> string list list option js_result \<times> remote" where
  "remote_values_get i rng e =
     (case sheets_down e of
        Some err \<Rightarrow> (Inl err, e)
      | None \<Rightarrow>
          (case map_of (files e) i of
             None \<Rightarrow> (Inl not_found, e)
           | Some tabs \<Rightarrow>
               (let rows = drop (range_first_row rng - 1) (tab_rows tabs (range_tab rng))
                in (Inr (if rows = [] then None else Some (map (map render_cell) rows)), e))))"

definition remote_values_append ::
  "string \<Rightarrow> string \<Rightarrow> cell list list \<Rightarrow> remote \<Rightarrow> unit js_result \<times> remote" where
  "remote_values_append i rng vals e =
     (case sheets_down e of
        Some err \<Rightarrow> (Inl err, e)
      | None \<Rightarrow>
          (case map_of (files e) i of
             None \<Rightarrow> (Inl not_found, e)
           | Some tabs \<Rightarrow>
               (Inr (),
                set_file i
                  (set_tab (range_tab rng) (tab_rows tabs (range_tab rng) @ vals) tabs) e)))"

definition service :: "remote platform" where
  "service =
     \<lparr>Date_now = clock,
      Math_random = (\<lambda>e. (random_text e, e)),
      requestAccessToken = (\<lambda>e. (identity e, e)),
      revoke = (\<lambda>token e. (revoke_exn e, e)),
      spreadsheets_get = remote_get,
      files_list = remote_list,
      spreadsheets_create = remote_create,
      values_batchUpdate = remote_batchUpdate,
      values_get = remote_values_get,
      values_append = remote_values_append,
      gapi_client = (\<lambda>e. None)\<rparr>"

text \<open>
  Modelled from the spec: the same service on a page where the script of \<open>gapi\<close> has not
  loaded, so that \<open>gapi\<close> is not defined.
\<close>

definition service_without_gapi :: "remote platform" where
  "service_without_gapi =
     service\<lparr>gapi_client := (\<lambda>e. Some (''ReferenceError'', ''gapi is not defined''))\<rparr>"

text \<open>A page that has been initialized, with nothing stored, at a given remote.\<close>

definition fresh_page :: "remote \<Rightarrow> remote world" where
  "fresh_page e =
     \<lparr>tokenClient = True, gapiInited = True, gisInited = True, initPromise = None,
      localStorage = Map.empty, gapi_token = None, env = e, trace = []\<rparr>"

definition granting :: remote where
  "granting =
     \<lparr>clock = 1000, random_text = ''0.4fzyo82mvyr'',
      identity = \<lparr>access_token = ''ya29.token'', expires_in = ''3599'', error = None\<rparr>,
      revoke_exn = None, drive_down = None, sheets_down = None, files = []\<rparr>"

section \<open>Reading the record of calls\<close>

text \<open>The tiers of the resolver: verification, search, creation.\<close>

fun is_tier :: "event \<Rightarrow> bool" where
  "is_tier (Ev_verifySheetExists i) = True"
| "is_tier Ev_findExistingSheet = True"
| "is_tier Ev_createSheet = True"
| "is_tier ev = False"

text \<open>The tier calls made between the states \<open>w\<close> and \<open>w'\<close>.\<close>

definition tiers_between :: "'e world \<Rightarrow> 'e world \<Rightarrow> event list" where
  "tiers_between w w' = filter is_tier (drop (length (trace w)) (trace w'))"


text \<open>
  The errors of \<open>createSheet\<close>: that of \<open>ensureAuthenticated\<close> without a token, or the
  prefix of \<open>createSheet\<close> before the normalized message of the failure.
\<close>

definition create_failure :: "jsval \<Rightarrow> bool" where
  "create_failure e =
     (e = new_Error ''Not authenticated''
      \<or> (\<exists>m. e = new_Error (''Failed to create sheet: '' @ m)))"

text \<open>
  The normalizer and the template literal of a \<open>catch\<close> block accept the value: neither
  throws on it.
\<close>

definition normalizes :: "jsval \<Rightarrow> bool" where
  "normalizes err = (case normalized_text err of Inl exn \<Rightarrow> False | Inr s \<Rightarrow> True)"

text \<open>
  What \<open>createSheet\<close>, called in the state \<open>w\<close>, needs for its failures to be its own
  errors: when it gets a token, \<open>gapi.client\<close> can be read to set it, and the value the
  creation request is rejected with, if it is rejected, is one that normalizes.
\<close>

definition creation_normal :: "'e platform \<Rightarrow> 'e world \<Rightarrow> bool" where
  "creation_normal p w =
     (case getAccessToken p (record_call Ev_createSheet w) of
        (accessToken, w') \<Rightarrow>
          \<not> present accessToken
          \<or> (client_access p (env w') = None
              \<and> (case spreadsheets_create p SHEET_TITLE [FARMACIAS_TAB, MEDICOS_TAB] (env w') of
                    (Inl err, e') \<Rightarrow> normalizes err
                  | (Inr spreadsheetId, e') \<Rightarrow> True)))"

text \<open>
  A page with no stored sheet ID at a remote whose Sheets rejects every call with an
  envelope whose error is \<open>null\<close>.
\<close>

definition null_error_page :: "remote world" where
  "null_error_page =
     (fresh_page
        (granting\<lparr>sheets_down := Some (JObj [(''result'', JObj [(''error'', JNull)])])\<rparr>))
     \<lparr>localStorage := [ACCESS_TOKEN \<mapsto> ''t'', EXPIRES_AT \<mapsto> ''5000'']\<rparr>"

text \<open>A page holding an unexpired token and the ID of a sheet the remote does not have.\<close>

definition stale_page :: "remote world" where
  "stale_page = (fresh_page granting)
     \<lparr>localStorage :=
        [ACCESS_TOKEN \<mapsto> ''t'', EXPIRES_AT \<mapsto> ''5000'', SHEET_ID \<mapsto> ''gone'']\<rparr>"

text \<open>A remote whose Drive rejects every call, and pages at it.\<close>

definition drive_outage :: remote where
  "drive_outage = granting\<lparr>drive_down := Some (JObj [(''statusText'', JStr ''Service Unavailable'')])\<rparr>"

definition signed_in_page :: "remote \<Rightarrow> remote world" where
  "signed_in_page e = (fresh_page e)
     \<lparr>localStorage := [ACCESS_TOKEN \<mapsto> ''t'', EXPIRES_AT \<mapsto> ''5000'']\<rparr>"

definition stale_outage_page :: "remote world" where
  "stale_outage_page = (fresh_page drive_outage)
     \<lparr>localStorage :=
        [ACCESS_TOKEN \<mapsto> ''t'', EXPIRES_AT \<mapsto> ''5000'', SHEET_ID \<mapsto> ''gone'']\<rparr>"

text \<open>A page with a stale sheet ID at a remote whose Sheets rejects every call.\<close>

definition sheets_outage_page :: "remote world" where
  "sheets_outage_page =
     (fresh_page
        (granting\<lparr>sheets_down :=
           Some (JObj [(''result'',
                        JObj [(''error'',
                               JObj [(''code'', JNum (Fin 500)),
                                     (''message'', JStr ''Backend Error'')])])])\<rparr>))
     \<lparr>localStorage :=
        [ACCESS_TOKEN \<mapsto> ''t'', EXPIRES_AT \<mapsto> ''5000'', SHEET_ID \<mapsto> ''gone'']\<rparr>"

text \<open>A page with a token attached, at a remote whose \<open>revoke\<close> throws.\<close>

definition revoke_throws_page :: "remote world" where
  "revoke_throws_page =
     (fresh_page (granting\<lparr>revoke_exn := Some (new_Error ''google is not defined'')\<rparr>))
     \<lparr>localStorage :=
        [ACCESS_TOKEN \<mapsto> ''t'', EXPIRES_AT \<mapsto> ''5000'', SHEET_ID \<mapsto> ''s''],
      gapi_token := Some ''t''\<rparr>"

text \<open>A page whose stored token has expired (the clock of \<open>granting\<close> reads 1000).\<close>

definition expired_page :: "remote world" where
  "expired_page = (fresh_page granting)
     \<lparr>localStorage := [ACCESS_TOKEN \<mapsto> ''old'', EXPIRES_AT \<mapsto> ''999'']\<rparr>"

section \<open>What a round trip through the remote service needs\<close>

text \<open>
  The stored token is unexpired at the clock of the remote; \<open>getAccessToken\<close> reads the
  expiry with radix 10, \<open>signIn\<close> with none.
\<close>

definition valid_until :: "nat option \<Rightarrow> remote world \<Rightarrow> bool" where
  "valid_until radix w =
     js_less (Fin (of_int (clock (env w))))
       (parseInt (text_of (localStorage w EXPIRES_AT)) radix)"

text \<open>
  The page can get a token at the service: a token and an expiry are stored, and the
  token is unexpired or the token client exists and either lets \<open>signIn\<close> reuse the
  token or is granted a new, non-empty one.
\<close>

definition can_authenticate :: "remote world \<Rightarrow> bool" where
  "can_authenticate w =
     (present (localStorage w ACCESS_TOKEN) \<and> present (localStorage w EXPIRES_AT)
      \<and> (valid_until (Some 10) w
          \<or> tokenClient w
             \<and> (valid_until None w
                 \<or> (\<not> present (error (identity (env w)))
                     \<and> access_token (identity (env w)) \<noteq> []))))"

text \<open>Every spreadsheet of the remote has its header row in both tabs.\<close>

definition has_headers :: "remote \<Rightarrow> bool" where
  "has_headers e =
     (\<forall>(i, tabs) \<in> set (files e).
        tab_rows tabs FARMACIAS_TAB \<noteq> [] \<and> tab_rows tabs MEDICOS_TAB \<noteq> [])"

text \<open>
  The field values a row keeps: a text that is absent or non-empty (the row maps the
  empty text and \<open>undefined\<close> to one cell), and a number that is absent or is read back
  from its text by \<open>parseFloat\<close>.
\<close>

definition kept_text :: "string option \<Rightarrow> bool" where
  "kept_text x = (x \<noteq> Some [])"

definition kept_number :: "jsnum option \<Rightarrow> bool" where
  "kept_number x = (case x of None \<Rightarrow> True | Some n \<Rightarrow> parseFloat (number_to_string n) = n)"

definition kept_Farmacia :: "'a Farmacia_fields_scheme \<Rightarrow> bool" where
  "kept_Farmacia f =
     (kept_text (f_email f) \<and> kept_text (f_phone f) \<and> kept_text (f_territorio f)
      \<and> kept_text (f_pais f) \<and> kept_text (f_estado f) \<and> kept_text (f_municipio f)
      \<and> kept_text (f_colonia f) \<and> kept_text (f_calle f) \<and> kept_text (f_estatus f)
      \<and> kept_text (f_codigoPostal f) \<and> kept_text (f_ruta f) \<and> kept_text (f_nombreCuenta f)
      \<and> kept_text (f_plantillaClientes f) \<and> kept_text (f_folioTienda f)
      \<and> kept_text (f_cedulaProfesional f) \<and> kept_text (f_grupoCadena f)
      \<and> kept_text (f_especialidad f) \<and> kept_text (f_categoriaMedico f)
      \<and> kept_text (f_propietarioCuenta f) \<and> kept_number (f_lat f) \<and> kept_number (f_lng f)
      \<and> kept_text (f_googleMapsUrl f) \<and> kept_text (f_nombreBrick f))"

definition kept_Medico :: "'a Medico_fields_scheme \<Rightarrow> bool" where
  "kept_Medico m =
     (kept_text (m_email m)
      \<and> kept_text (m_phone m)
      \<and> kept_text (m_estado m)
      \<and> kept_text (m_ciudad m)
      \<and> kept_text (m_colonia m)
      \<and> kept_text (m_calle m)
      \<and> kept_text (m_estatus m)
      \<and> kept_text (m_codigoPostal m)
      \<and> kept_text (m_nombreCuenta m)
      \<and> kept_text (m_especialidad m)
      \<and> kept_text (m_nombreBrick m)
      \<and> kept_number (m_lat m)
      \<and> kept_number (m_lng m)
      \<and> kept_text (m_googleMapsUrl m))"

text \<open>
  A remote with one spreadsheet holding its headers, a signed-in page that has its ID,
  and inputs of the write functions.
\<close>

definition ready_page :: "remote world" where
  "ready_page =
     (fresh_page
        (granting\<lparr>files :=
           [(''sheet-0'',
             [(FARMACIAS_TAB, [map CStr FARMACIAS_HEADERS]),
              (MEDICOS_TAB, [map CStr MEDICOS_HEADERS])])]\<rparr>))
     \<lparr>localStorage :=
        [ACCESS_TOKEN \<mapsto> ''t'', EXPIRES_AT \<mapsto> ''5000'', SHEET_ID \<mapsto> ''sheet-0'']\<rparr>"

text \<open>The same remote and a signed-in page holding the ID of a sheet that is gone.\<close>

definition lost_id_page :: "remote world" where
  "lost_id_page = ready_page\<lparr>localStorage := (localStorage ready_page)(SHEET_ID \<mapsto> ''gone'')\<rparr>"

definition no_fields :: Farmacia_fields where
  "no_fields =
     \<lparr>f_email = None, f_phone = None, f_territorio = None, f_pais = None, f_estado = None,
      f_municipio = None, f_colonia = None, f_calle = None, f_estatus = None,
      f_codigoPostal = None, f_ruta = None, f_nombreCuenta = None,
      f_plantillaClientes = None, f_folioTienda = None, f_cedulaProfesional = None,
      f_grupoCadena = None, f_especialidad = None, f_categoriaMedico = None,
      f_propietarioCuenta = None, f_lat = None, f_lng = None, f_googleMapsUrl = None,
      f_nombreBrick = None\<rparr>"

definition no_medico_fields :: Medico_fields where
  "no_medico_fields =
     \<lparr>m_email = None, m_phone = None, m_estado = None, m_ciudad = None, m_colonia = None,
      m_calle = None, m_estatus = None, m_codigoPostal = None, m_nombreCuenta = None,
      m_especialidad = None, m_nombreBrick = None, m_lat = None, m_lng = None,
      m_googleMapsUrl = None\<rparr>"

definition id_and_email :: "Farmacia \<Rightarrow> string \<times> string option" where
  "id_and_email e = (f_id e, f_email e)"

section \<open>Properties of the error normalizer\<close>

lemma nat_to_radix_nonempty: "nat_to_radix b n \<noteq> []"
  by (subst nat_to_radix.simps) simp

lemma number_to_string_nonempty: "number_to_string n \<noteq> []"
  by (cases n) (simp_all add: number_to_string_def int_to_radix_def nat_to_radix_nonempty)

lemma standard_message_nonempty:
  assumes "\<exists>t. ToString v = Inr t \<and> t \<noteq> []"
    and "read_member v ''message'' \<noteq> JStr []"
    and "read_member v ''statusText'' \<noteq> JStr []"
  shows "\<exists>s. standard_message v = Inr (JStr s) \<and> s \<noteq> []"
proof (cases "has_property ''message'' v \<and> typeof_string (read_member v ''message'')")
  case True
  then obtain s where "read_member v ''message'' = JStr s"
    by (cases "read_member v ''message''") auto
  with True assms(2) show ?thesis by (simp add: standard_message_def)
next
  case no_msg: False
  show ?thesis
  proof (cases "has_property ''statusText'' v \<and> typeof_string (read_member v ''statusText'')")
    case True
    then obtain s where "read_member v ''statusText'' = JStr s"
      by (cases "read_member v ''statusText''") auto
    with True no_msg assms(3) show ?thesis by (auto simp: standard_message_def)
  next
    case False
    with no_msg assms(1) show ?thesis by (auto simp: standard_message_def String_of_def)
  qed
qed

text \<open>
  C7 (code defect).  The claim says that \<open>extractErrorMessage\<close> never throws.  On an
  envelope whose \<open>error\<close> property is \<open>null\<close>, as in \<open>{result: {error: null}}\<close>, the guard
  of the envelope branch passes and the read of \<open>gapiError.message\<close> throws a
  \<open>TypeError\<close>: the function throws instead of returning a string.
\<close>

theorem extractErrorMessage_throws_on_null_error:
  "extractErrorMessage (JObj [(''result'', JObj [(''error'', JNull)])]) = Inl TypeError_null"
  by (simp add: extractErrorMessage_def read_member_def)

theorem extractErrorMessage_throws_on_null_error_witness:
  "\<not> (\<exists>r. extractErrorMessage (JObj [(''result'', JObj [(''error'', JNull)])]) = Inr r)"
  using extractErrorMessage_throws_on_null_error by simp

text \<open>
  C8, as stated, fails: an \<open>Error\<close> with an empty message is normalized to the empty
  string.
\<close>

theorem extractErrorMessage_empty_counterexample:
  "extractErrorMessage (new_Error []) = Inr (JStr [])"
  by (simp add: extractErrorMessage_def new_Error_def standard_message_def read_member_def)

text \<open>
  The default conversion throws on an object with an own property \<open>toString\<close> and none
  of the known message fields, also when it is an element of an array: the normalizer
  then throws instead of returning a string.
\<close>

lemma extractErrorMessage_throws_on_own_toString:
  "extractErrorMessage (JObj [(''toString'', JNum (Fin 5))]) = Inl TypeError_primitive"
  "extractErrorMessage (JArr [JObj [(''toString'', JNull)]]) = Inl TypeError_primitive"
  by (simp_all add: extractErrorMessage_def standard_message_def String_of_def read_member_def)

text \<open>
  C8 (amended).  For every input value whose default conversion \<open>String(value)\<close> does not
  throw and gives a non-empty text (so the value is not the empty string, not an array
  whose text is empty, and neither is nor holds as an array element an object with an
  own non-callable \<open>toString\<close>), whose \<open>message\<close> and \<open>statusText\<close> are not the empty
  string, and whose gapi envelope, if it has one, holds an error that is neither \<open>null\<close>
  nor \<open>undefined\<close> with a message that is absent, falsy or a string,
  \<open>extractErrorMessage\<close> returns a non-empty string.  This covers the malformed error
  objects that carry none of the known message fields and inherit their \<open>toString\<close>.
\<close>

theorem extractErrorMessage_nonempty:
  assumes "\<exists>t. ToString v = Inr t \<and> t \<noteq> []"
    and "read_member v ''message'' \<noteq> JStr []"
    and "read_member v ''statusText'' \<noteq> JStr []"
    and "gapi_envelope v \<longrightarrow>
           (\<exists>m. get_property (read_member (read_member v ''result'') ''error'') ''message''
                  = Inr m
                \<and> (truthy m \<longrightarrow> typeof_string m))"
  shows "\<exists>s. extractErrorMessage v = Inr (JStr s) \<and> s \<noteq> []"
proof (cases "\<not> truthy v \<or> \<not> typeof_object v")
  case True
  with assms(1) show ?thesis by (auto simp: extractErrorMessage_def String_of_def)
next
  case obj: False
  from assms(1-3) obtain s where std: "standard_message v = Inr (JStr s)" "s \<noteq> []"
    using standard_message_nonempty by blast
  show ?thesis
  proof (cases "gapi_envelope v")
    case True
    with assms(4) obtain m where
      m: "get_property (read_member (read_member v ''result'') ''error'') ''message'' = Inr m"
        "truthy m \<longrightarrow> typeof_string m"
      by blast
    show ?thesis
    proof (cases "truthy m")
      case True
      with m(2) obtain t where "m = JStr t" "t \<noteq> []"
        by (cases m) auto
      with True m(1) obj \<open>gapi_envelope v\<close> show ?thesis
        by (simp add: extractErrorMessage_def gapi_envelope_def)
    next
      case False
      with m(1) obj \<open>gapi_envelope v\<close> std show ?thesis
        by (simp add: extractErrorMessage_def gapi_envelope_def)
    qed
  next
    case False
    with obj std show ?thesis
      by (auto simp: extractErrorMessage_def gapi_envelope_def)
  qed
qed

theorem extractErrorMessage_nonempty_witness:
  "extractErrorMessage (JObj [(''status'', JNum (Fin 500))]) = Inr (JStr ''[object Object]'')"
proof -
  have "\<exists>s. extractErrorMessage (JObj [(''status'', JNum (Fin 500))]) = Inr (JStr s) \<and> s \<noteq> []"
    by (rule extractErrorMessage_nonempty)
       (simp_all add: read_member_def gapi_envelope_def)
  then show ?thesis
    by (simp add: extractErrorMessage_def standard_message_def String_of_def read_member_def)
qed

section \<open>Properties of the resolver\<close>

subsection \<open>The calls each function records\<close>

lemma signIn_trace:
  "\<exists>xs. trace (snd (signIn p w)) = trace w @ Ev_signIn # xs \<and> filter is_tier xs = []"
  by (auto simp: signIn_def signIn_callback_def Let_def resolve_def reject_def record_call_def
      storeTokens_def split: prod.splits option.splits)

lemma getAccessToken_trace:
  "\<exists>xs. trace (snd (getAccessToken p w)) = trace w @ xs \<and> filter is_tier xs = []"
proof -
  obtain xs where "trace (snd (signIn p w)) = trace w @ xs" "filter is_tier xs = []"
    using signIn_trace[of p w] by force
  then show ?thesis
    by (auto simp: getAccessToken_def Let_def split: prod.splits sum.splits)
qed

lemma ensureAuthenticated_trace:
  "\<exists>xs. trace (snd (ensureAuthenticated p w)) = trace w @ xs \<and> filter is_tier xs = []"
proof -
  obtain xs where "trace (snd (getAccessToken p w)) = trace w @ xs" "filter is_tier xs = []"
    using getAccessToken_trace by blast
  then show ?thesis
    by (auto simp: ensureAuthenticated_def resolve_def reject_def
        split: prod.splits option.splits)
qed

lemma call_out_trace: "trace (snd (call_out f w)) = trace w"
  by (simp add: call_out_def split: prod.splits)

lemma verifySheetExists_trace:
  "\<exists>xs. trace (snd (verifySheetExists p i w)) = trace w @ Ev_verifySheetExists i # xs
        \<and> filter is_tier xs = []"
proof -
  let ?w = "record_call (Ev_verifySheetExists i) w"
  obtain xs where xs: "trace (snd (ensureAuthenticated p ?w)) = trace ?w @ xs" "filter is_tier xs = []"
    using ensureAuthenticated_trace by blast
  show ?thesis
  proof (cases "ensureAuthenticated p ?w")
    case (Pair r w1)
    with xs show ?thesis
      by (cases r)
         (auto simp: verifySheetExists_def await_def try_catch_def record_call_def
            call_out_def rethrow_with_def reject_def split: prod.splits sum.splits)
  qed
qed

lemma findExistingSheet_trace:
  "\<exists>xs. trace (snd (findExistingSheet p w)) = trace w @ Ev_findExistingSheet # xs
        \<and> filter is_tier xs = []"
proof -
  let ?w = "record_call Ev_findExistingSheet w"
  obtain xs where xs: "trace (snd (ensureAuthenticated p ?w)) = trace ?w @ xs" "filter is_tier xs = []"
    using ensureAuthenticated_trace by blast
  show ?thesis
  proof (cases "ensureAuthenticated p ?w")
    case (Pair r w1)
    with xs show ?thesis
      by (cases r)
         (auto simp: findExistingSheet_def await_def try_catch_def record_call_def resolve_def
            call_out_def rethrow_with_def reject_def split: prod.splits sum.splits option.splits list.splits)
  qed
qed

lemma writeHeaders_trace:
  "\<exists>xs. trace (snd (writeHeaders p i w)) = trace w @ xs \<and> filter is_tier xs = []"
proof -
  let ?w = "record_call (Ev_writeHeaders i) w"
  obtain xs where xs: "trace (snd (ensureAuthenticated p ?w)) = trace ?w @ xs" "filter is_tier xs = []"
    using ensureAuthenticated_trace by blast
  show ?thesis
  proof (cases "ensureAuthenticated p ?w")
    case (Pair r w1)
    with xs show ?thesis
      by (cases r)
         (auto simp: writeHeaders_def await_def try_catch_def record_call_def resolve_def
            call_out_def rethrow_with_def reject_def split: prod.splits sum.splits)
  qed
qed

lemma createSheet_trace:
  "\<exists>xs. trace (snd (createSheet p w)) = trace w @ Ev_createSheet # xs
        \<and> filter is_tier xs = []"
proof -
  let ?w = "record_call Ev_createSheet w"
  obtain xs where xs: "trace (snd (ensureAuthenticated p ?w)) = trace ?w @ xs" "filter is_tier xs = []"
    using ensureAuthenticated_trace by blast
  show ?thesis
  proof (cases "ensureAuthenticated p ?w")
    case (Pair r w1)
    show ?thesis
    proof (cases r)
      case (Inl e)
      with Pair xs show ?thesis
        by (auto simp: createSheet_def await_def record_call_def)
    next
      case (Inr u)
      obtain r2 w2 where c: "call_out (spreadsheets_create p SHEET_TITLE [FARMACIAS_TAB, MEDICOS_TAB]) w1 = (r2, w2)"
        by (cases "call_out (spreadsheets_create p SHEET_TITLE [FARMACIAS_TAB, MEDICOS_TAB]) w1")
      then have t2: "trace w2 = trace w1" using call_out_trace[of _ w1] by (metis snd_conv)
      show ?thesis
      proof (cases r2)
        case (Inl e2)
        with Pair Inr c t2 xs show ?thesis
          by (auto simp: createSheet_def await_def try_catch_def record_call_def rethrow_with_def reject_def split: sum.splits)
      next
        case (Inr sid)
        obtain zs where zs: "trace (snd (writeHeaders p (text_of sid) w2)) = trace w2 @ zs" "filter is_tier zs = []"
          using writeHeaders_trace by blast
        with Pair \<open>r = Inr u\<close> Inr c t2 xs show ?thesis
          by (cases "writeHeaders p (text_of sid) w2")
             (auto simp: createSheet_def await_def try_catch_def record_call_def rethrow_with_def reject_def resolve_def split: sum.splits)
      qed
    qed
  qed
qed


lemma initializeSheet_create_trace:
  "trace (snd (initializeSheet_create p w)) = trace (snd (createSheet p w))"
  by (cases "createSheet p w")
     (auto simp: initializeSheet_create_def try_catch_def await_def resolve_def reject_def
        storeSheetId_def split: sum.splits)

lemma findExistingSheet_match:
  "findExistingSheet p w = (Inr (Some m), w') \<Longrightarrow> m \<noteq> []"
  by (auto simp: findExistingSheet_def await_def try_catch_def resolve_def rethrow_with_def
        reject_def call_out_def
      split: prod.splits sum.splits option.splits list.splits if_splits)

lemma initializeSheet_search_trace:
  "\<exists>ys. trace (snd (initializeSheet_search p w)) = trace w @ ys
        \<and> filter is_tier ys =
            Ev_findExistingSheet #
              (if (\<exists>m. fst (findExistingSheet p w) = Inr (Some m)) then []
               else [Ev_createSheet])"
proof -
  obtain r w1 where f: "findExistingSheet p w = (r, w1)"
    by (cases "findExistingSheet p w")
  obtain xs where xs: "trace w1 = trace w @ Ev_findExistingSheet # xs" "filter is_tier xs = []"
    using findExistingSheet_trace[of p w] f by auto
  obtain ys where ys: "trace (snd (createSheet p w1)) = trace w1 @ Ev_createSheet # ys"
      "filter is_tier ys = []"
    using createSheet_trace[of p w1] by auto
  have c: "trace (snd (initializeSheet_create p w1))
             = trace w @ (Ev_findExistingSheet # xs @ Ev_createSheet # ys)"
    using xs ys by (simp add: initializeSheet_create_trace)
  show ?thesis
  proof (cases r)
    case (Inl e)
    with f c xs ys show ?thesis by (simp add: initializeSheet_search_def)
  next
    case (Inr found)
    show ?thesis
    proof (cases found)
      case None
      with Inr f c xs ys show ?thesis by (simp add: initializeSheet_search_def)
    next
      case (Some m)
      with Inr f have "m \<noteq> []" using findExistingSheet_match by blast
      with Some Inr f xs show ?thesis
        by (simp add: initializeSheet_search_def resolve_def storeSheetId_def)
    qed
  qed
qed

text \<open>
  C1 (amended).  For every call of \<open>initializeSheet\<close>: when a non-empty sheet ID is
  stored, its verification is attempted first, and when that succeeds the stored ID is
  returned and no other tier is tried; when it fails, or nothing is stored, the search
  is attempted next; the creation is invoked exactly when the search does not return a
  sheet, whether it completed with no match or failed.  The tier calls are always made
  in that order.
\<close>

theorem initializeSheet_tier_order:
  fixes p :: "'e platform" and w :: "'e world"
  defines "cached \<equiv> getStoredSheetId w"
  defines "verification \<equiv> verifySheetExists p (text_of cached) w"
  defines "verified \<equiv> present cached \<and> (\<exists>u. fst verification = Inr u)"
  defines "w1 \<equiv> if present cached then snd verification else w"
  defines "found \<equiv> (\<exists>m. fst (findExistingSheet p w1) = Inr (Some m))"
  shows "tiers_between w (snd (initializeSheet p w)) =
           (if present cached then [Ev_verifySheetExists (text_of cached)] else [])
           @ (if verified then []
              else Ev_findExistingSheet # (if found then [] else [Ev_createSheet]))
         \<and> (verified \<longrightarrow> fst (initializeSheet p w) = Inr (text_of cached))"
proof (cases "present cached")
  case False
  then show ?thesis
    using initializeSheet_search_trace[of p w]
    by (auto simp: initializeSheet_def cached_def verified_def w1_def found_def
          tiers_between_def)
next
  case True
  obtain r w' where v: "verifySheetExists p (text_of cached) w = (r, w')"
    by (cases "verifySheetExists p (text_of cached) w")
  obtain xs where xs: "trace w' = trace w @ Ev_verifySheetExists (text_of cached) # xs"
      "filter is_tier xs = []"
    using verifySheetExists_trace[of p "text_of cached" w] v by auto
  show ?thesis
  proof (cases r)
    case (Inr u)
    with True v xs show ?thesis
      by (simp add: initializeSheet_def cached_def[symmetric] verified_def verification_def
            resolve_def tiers_between_def)
  next
    case (Inl e)
    with True v xs show ?thesis
      using initializeSheet_search_trace[of p w']
      by (auto simp: initializeSheet_def cached_def[symmetric] verified_def verification_def
            w1_def found_def tiers_between_def)
  qed
qed

lemmas run_defs =
  stale_page_def fresh_page_def granting_def service_def drive_outage_def signed_in_page_def
  stale_outage_page_def revoke_throws_page_def expired_page_def sheets_outage_page_def
  ready_page_def lost_id_page_def
  verifySheetExists_def findExistingSheet_def createSheet_def writeHeaders_def
  ensureAuthenticated_def getAccessToken_def signIn_def signIn_callback_def
  await_def try_catch_def call_out_def record_call_def resolve_def reject_def rethrow_with_def
  remote_get_def remote_list_def remote_create_def remote_batchUpdate_def
  ACCESS_TOKEN_def EXPIRES_AT_def SHEET_ID_def getStoredSheetId_def storeSheetId_def
  storeTokens_def extractErrorMessage_def standard_message_def read_member_def not_found_def
  normalized_text_def String_of_def client_access_def service_without_gapi_def
  null_error_page_def new_Error_def Let_def

lemma parseInt_5000: "parseInt ''5000'' (Some 10) = Fin 5000"
  by (simp add: parseInt_def is_space_def is_digit_in_def digit_value_def digits_value_def
        signed_def)

theorem initializeSheet_tier_order_witness:
  "tiers_between stale_page (snd (initializeSheet service stale_page)) =
     [Ev_verifySheetExists ''gone'', Ev_findExistingSheet, Ev_createSheet]
   \<and> tiers_between lost_id_page (snd (initializeSheet service lost_id_page)) =
       [Ev_verifySheetExists ''gone'', Ev_findExistingSheet]
   \<and> tiers_between ready_page (snd (initializeSheet service ready_page)) =
       [Ev_verifySheetExists ''sheet-0'']
   \<and> fst (initializeSheet service ready_page) = Inr ''sheet-0''"
proof -
  have a: "getStoredSheetId stale_page = Some ''gone''"
    "getStoredSheetId lost_id_page = Some ''gone''"
    "getStoredSheetId ready_page = Some ''sheet-0''"
    by (simp_all add: run_defs)
  have b: "fst (verifySheetExists service ''gone'' stale_page) =
             Inl (new_Error
                    ''Sheet not found or not accessible (gone): Requested entity was not found.'')"
    "fst (verifySheetExists service ''gone'' lost_id_page) =
             Inl (new_Error
                    ''Sheet not found or not accessible (gone): Requested entity was not found.'')"
    "fst (verifySheetExists service ''sheet-0'' ready_page) = Inr ()"
    by (simp_all add: run_defs parseInt_5000)
  have c: "fst (findExistingSheet service (snd (verifySheetExists service ''gone'' stale_page)))
             = Inr None"
    "fst (findExistingSheet service (snd (verifySheetExists service ''gone'' lost_id_page)))
             = Inr (Some ''sheet-0'')"
    by (simp_all add: run_defs parseInt_5000)
  show ?thesis
    using initializeSheet_tier_order[of stale_page service]
      initializeSheet_tier_order[of lost_id_page service]
      initializeSheet_tier_order[of ready_page service]
    by (simp add: a b c)
qed

text \<open>
  C1, as stated, fails: the search fails (Drive rejects the listing) and the creation is
  invoked all the same.
\<close>

theorem initializeSheet_creates_after_failed_search:
  "fst (findExistingSheet service (signed_in_page drive_outage)) =
     Inl (new_Error ''Failed to search for existing sheet: Service Unavailable'')
   \<and> tiers_between (signed_in_page drive_outage)
        (snd (initializeSheet service (signed_in_page drive_outage))) =
       [Ev_findExistingSheet, Ev_createSheet]"
  by (simp add: run_defs parseInt_5000 initializeSheet_def initializeSheet_search_def
        initializeSheet_create_def tiers_between_def)

subsection \<open>Failures of the tiers\<close>

lemma all_results_exception: "all_results rs = Inl exn \<Longrightarrow> Inl exn \<in> set rs"
  by (induction rs rule: all_results.induct) (auto split: sum.splits)

lemma ToString_exception: "ToString v = Inl exn \<Longrightarrow> exn = TypeError_primitive"
proof (induction v rule: ToString.induct)
  case (6 xs)
  then have "Inl exn \<in> set (map (\<lambda>x. if x = JUndefined \<or> x = JNull then Inr [] else ToString x) xs)"
    by (auto dest: all_results_exception split: sum.splits)
  with 6 show ?case by (auto split: if_splits)
qed (auto split: if_splits)

lemma standard_message_exception:
  "standard_message v = Inl exn \<Longrightarrow> exn = TypeError_primitive"
  by (auto simp: standard_message_def String_of_def dest: ToString_exception
      split: if_splits sum.splits)

lemma extractErrorMessage_exception:
  "extractErrorMessage v = Inl exn \<Longrightarrow>
     exn = TypeError_null \<or> exn = TypeError_undefined \<or> exn = TypeError_primitive"
  by (cases "read_member (read_member v ''result'') ''error''")
     (auto simp: extractErrorMessage_def String_of_def
        dest: ToString_exception standard_message_exception split: if_splits sum.splits)

lemma normalized_text_exception:
  "normalized_text v = Inl exn \<Longrightarrow> \<exists>m. exn = JError ''TypeError'' m"
  by (auto simp: normalized_text_def TypeError_null_def TypeError_undefined_def
        TypeError_primitive_def
      dest: extractErrorMessage_exception ToString_exception split: sum.splits)

lemma normalized_text_Error: "normalized_text (JError name msg) = Inr msg"
  by (simp add: normalized_text_def extractErrorMessage_def standard_message_def
        read_member_def)

lemma rethrow_with_outcome:
  "rethrow_with pre err w = (r, w') \<Longrightarrow>
     w' = w \<and> ((\<exists>m. r = Inl (JError ''TypeError'' m)) \<or> (\<exists>m. r = Inl (new_Error (pre @ m))))"
  using normalized_text_exception[of err]
  by (auto simp: rethrow_with_def reject_def split: sum.splits)

lemma ensureAuthenticated_failure:
  "ensureAuthenticated p w = (Inl e, w') \<Longrightarrow> \<exists>name msg. e = JError name msg"
  by (auto simp: ensureAuthenticated_def reject_def resolve_def client_access_def new_Error_def
      split: prod.splits if_splits option.splits)

lemma writeHeaders_failure:
  assumes "writeHeaders p i w = (Inl e, w')"
  shows "\<exists>name msg. e = JError name msg"
proof (cases "ensureAuthenticated p (record_call (Ev_writeHeaders i) w)")
  case (Pair r w1)
  show ?thesis
  proof (cases r)
    case (Inl e1)
    with Pair assms show ?thesis
      using ensureAuthenticated_failure[of p "record_call (Ev_writeHeaders i) w" e1 w1]
      by (simp add: writeHeaders_def await_def)
  next
    case (Inr u)
    with Pair assms show ?thesis
      by (auto simp: writeHeaders_def await_def try_catch_def new_Error_def
            dest!: rethrow_with_outcome split: prod.splits sum.splits)
  qed
qed

lemma createSheet_failure:
  fixes p :: "'e platform"
  assumes "createSheet p w = (Inl e, w')" and "creation_normal p w"
  shows "create_failure e"
proof -
  let ?pre = "''Failed to create sheet: ''"
  let ?catch = "rethrow_with ?pre :: jsval \<Rightarrow> ('e, string) async"
  let ?w = "record_call Ev_createSheet w"
  obtain tok v where g: "getAccessToken p ?w = (tok, v)"
    by (cases "getAccessToken p ?w")
  show ?thesis
  proof (cases "present tok")
    case False
    with g assms(1) have "e = new_Error ''Not authenticated''"
      by (simp add: createSheet_def await_def ensureAuthenticated_def reject_def)
    then show ?thesis by (simp add: create_failure_def)
  next
    case True
    with g assms(2) have client: "client_access p (env v) = None"
      by (simp add: creation_normal_def)
    let ?v = "v\<lparr>gapi_token := tok\<rparr>"
    from True g client have ea: "ensureAuthenticated p ?w = (Inr (), ?v)"
      by (simp add: ensureAuthenticated_def resolve_def)
    obtain r e' where c: "spreadsheets_create p SHEET_TITLE [FARMACIAS_TAB, MEDICOS_TAB] (env v) = (r, e')"
      by (cases "spreadsheets_create p SHEET_TITLE [FARMACIAS_TAB, MEDICOS_TAB] (env v)")
    have caught: "\<exists>m. e = new_Error (?pre @ m)"
      if "?catch err u = (Inl e, u')" and "normalizes err" for err u u'
      using that
      by (auto simp: rethrow_with_def reject_def normalizes_def split: sum.splits)
    have errors: "normalizes (JError name msg)" for name msg
      by (simp add: normalizes_def normalized_text_Error)
    show ?thesis
    proof (cases r)
      case (Inl err)
      with True g c assms(2) have "normalizes err"
        by (simp add: creation_normal_def)
      moreover from ea c Inl assms(1)
      have "?catch err (?v\<lparr>env := e'\<rparr>) = (Inl e, w')"
        by (simp add: createSheet_def await_def try_catch_def call_out_def)
      ultimately show ?thesis using caught by (auto simp: create_failure_def)
    next
      case (Inr sid)
      show ?thesis
      proof (cases "present sid")
        case False
        with ea c Inr assms(1)
        have "?catch
                (new_Error ''Failed to create sheet - no spreadsheet ID returned'')
                (?v\<lparr>env := e'\<rparr>) = (Inl e, w')"
          by (simp add: createSheet_def await_def try_catch_def call_out_def reject_def)
        then show ?thesis
          using caught errors by (auto simp: create_failure_def new_Error_def)
      next
        case present_id: True
        obtain r3 w3 where h: "writeHeaders p (text_of sid) (?v\<lparr>env := e'\<rparr>) = (r3, w3)"
          by (cases "writeHeaders p (text_of sid) (?v\<lparr>env := e'\<rparr>)")
        show ?thesis
        proof (cases r3)
          case (Inl e3)
          with h obtain name msg where "e3 = JError name msg"
            using writeHeaders_failure by blast
          moreover from ea c Inr present_id h Inl assms(1)
          have "?catch e3 w3 = (Inl e, w')"
            by (simp add: createSheet_def await_def try_catch_def call_out_def)
          ultimately show ?thesis
            using caught errors by (auto simp: create_failure_def)
        next
          case (Inr u)
          with ea c \<open>r = Inr sid\<close> present_id h assms(1) show ?thesis
            by (simp add: createSheet_def await_def try_catch_def call_out_def resolve_def)
        qed
      qed
    qed
  qed
qed

lemma initializeSheet_create_outcome:
  "initializeSheet_create p w =
     (case createSheet p w of
        (Inr i, w') \<Rightarrow> (Inr i, storeSheetId i w')
      | (Inl e, w') \<Rightarrow> (Inl e, w'))"
  by (simp add: initializeSheet_create_def try_catch_def await_def resolve_def reject_def
        split: prod.splits sum.splits)

text \<open>
  C2, as stated, fails: the search fails and the call is not rejected; it resolves with
  the ID of the sheet it then creates.
\<close>

theorem initializeSheet_search_failure_not_surfaced:
  "fst (findExistingSheet service (snd (verifySheetExists service ''gone'' stale_outage_page))) =
     Inl (new_Error ''Failed to search for existing sheet: Service Unavailable'')
   \<and> fst (initializeSheet service stale_outage_page) = Inr ''sheet-0''"
  by (simp add: run_defs parseInt_5000 initializeSheet_def initializeSheet_search_def
        initializeSheet_create_def nat_to_radix.simps digit_char_def
        SHEET_TITLE_def FARMACIAS_TAB_def MEDICOS_TAB_def set_file_def write_ranges.simps)

text \<open>
  A failed creation can surface an exception that is not an error of \<open>createSheet\<close>:
  when Sheets rejects the creation request with an envelope whose error is \<open>null\<close>, the
  normalizer throws in the \<open>catch\<close> block of \<open>createSheet\<close> (see C7) and its \<open>TypeError\<close>
  is what the caller gets.
\<close>

lemma initializeSheet_surfaces_normalizer_exception:
  "fst (initializeSheet service null_error_page) = Inl TypeError_null"
  "\<not> create_failure TypeError_null"
  "\<not> creation_normal service (snd (findExistingSheet service null_error_page))"
  by (simp_all add: run_defs parseInt_5000 initializeSheet_def initializeSheet_search_def
        initializeSheet_create_def create_failure_def creation_normal_def normalizes_def
        TypeError_null_def SHEET_TITLE_def FARMACIAS_TAB_def MEDICOS_TAB_def)

text \<open>
  C2 (amended).  For every call of \<open>initializeSheet\<close> in which no stored sheet ID is
  verified: a failure of the verification is swallowed, and so is a failure of the
  search, after which the creation follows as it does when nothing is found; the call
  resolves with the sheet the search finds or the creation returns.  A failure of the
  creation is fatal: the call is rejected with the exception of \<open>createSheet\<close>.  When
  \<open>gapi.client\<close> can be read to set the token and the value the creation request is
  rejected with is one on which neither the normalizer nor the template literal of the
  \<open>catch\<close> block throws, that exception is an \<open>Error\<close> whose message is
  \<open>Not authenticated\<close> or \<open>Failed to create sheet: \<close> followed by the normalized
  message.
\<close>

theorem initializeSheet_failure_policy:
  fixes p :: "'e platform" and w :: "'e world"
  defines "cached \<equiv> getStoredSheetId w"
  defines "verification \<equiv> verifySheetExists p (text_of cached) w"
  defines "w1 \<equiv> if present cached then snd verification else w"
  assumes unverified: "present cached \<longrightarrow> (\<exists>e1. fst verification = Inl e1)"
  shows "(\<forall>m w2. findExistingSheet p w1 = (Inr (Some m), w2) \<longrightarrow>
            initializeSheet p w = (Inr m, storeSheetId m w2))
       \<and> (\<forall>r2 w2 i w3.
            findExistingSheet p w1 = (r2, w2) \<and> (\<forall>m. r2 \<noteq> Inr (Some m))
            \<and> createSheet p w2 = (Inr i, w3) \<longrightarrow>
            initializeSheet p w = (Inr i, storeSheetId i w3))
       \<and> (\<forall>r2 w2 e w3.
            findExistingSheet p w1 = (r2, w2) \<and> (\<forall>m. r2 \<noteq> Inr (Some m))
            \<and> createSheet p w2 = (Inl e, w3) \<longrightarrow>
            initializeSheet p w = (Inl e, w3)
            \<and> (creation_normal p w2 \<longrightarrow> create_failure e))"
proof -
  have start: "initializeSheet p w = initializeSheet_search p w1"
    using unverified
    by (auto simp: initializeSheet_def cached_def verification_def w1_def Let_def
          split: prod.splits sum.splits)
  have found: "initializeSheet_search p w1 = (Inr m, storeSheetId m w2)"
    if "findExistingSheet p w1 = (Inr (Some m), w2)" for m w2
    using that findExistingSheet_match[OF that]
    by (simp add: initializeSheet_search_def resolve_def)
  have missing: "initializeSheet_search p w1 = initializeSheet_create p w2"
    if "findExistingSheet p w1 = (r2, w2)" and "\<forall>m. r2 \<noteq> Inr (Some m)" for r2 w2
    using that
    by (cases r2) (auto simp: initializeSheet_search_def split: option.splits)
  have created: "initializeSheet_create p w2 = (Inr i, storeSheetId i w3)"
    if "createSheet p w2 = (Inr i, w3)" for w2 i w3
    using that by (simp add: initializeSheet_create_outcome)
  have failed: "initializeSheet_create p w2 = (Inl e, w3)"
    if "createSheet p w2 = (Inl e, w3)" for w2 e w3
    using that by (simp add: initializeSheet_create_outcome)
  show ?thesis
  proof (intro conjI allI impI)
    fix m w2 assume "findExistingSheet p w1 = (Inr (Some m), w2)"
    then show "initializeSheet p w = (Inr m, storeSheetId m w2)"
      using start found by simp
  next
    fix r2 w2 i w3
    assume "findExistingSheet p w1 = (r2, w2) \<and> (\<forall>m. r2 \<noteq> Inr (Some m))
              \<and> createSheet p w2 = (Inr i, w3)"
    then show "initializeSheet p w = (Inr i, storeSheetId i w3)"
      using start missing created by simp
  next
    fix r2 w2 e w3
    assume a: "findExistingSheet p w1 = (r2, w2) \<and> (\<forall>m. r2 \<noteq> Inr (Some m))
              \<and> createSheet p w2 = (Inl e, w3)"
    then show "initializeSheet p w = (Inl e, w3)"
      using start missing failed by simp
    assume "creation_normal p w2"
    with a show "create_failure e"
      using createSheet_failure by blast
  qed
qed

theorem initializeSheet_failure_policy_witness:
  "fst (initializeSheet service sheets_outage_page) =
     Inl (new_Error ''Failed to create sheet: Backend Error'')
   \<and> creation_normal service
        (snd (findExistingSheet service
                (snd (verifySheetExists service ''gone'' sheets_outage_page))))"
  using initializeSheet_failure_policy[of sheets_outage_page service]
  by (simp add: run_defs parseInt_5000 SHEET_TITLE_def FARMACIAS_TAB_def MEDICOS_TAB_def
        creation_normal_def normalizes_def)

section \<open>Properties of the credential manager\<close>

text \<open>
  C5, as stated, fails: when the revocation call throws synchronously, \<open>signOut\<close> rejects
  and the stored token and sheet ID are still there.
\<close>

theorem signOut_keeps_storage_when_revoke_throws:
  "fst (signOut service revoke_throws_page) = Inl (new_Error ''google is not defined'')
   \<and> localStorage (snd (signOut service revoke_throws_page)) ACCESS_TOKEN = Some ''t''
   \<and> localStorage (snd (signOut service revoke_throws_page)) SHEET_ID = Some ''s''"
  by (simp add: signOut_def run_defs)

text \<open>
  C5 (amended).  Every call of \<open>signOut\<close> that resolves has removed the stored access
  token, its expiry and the stored sheet ID together, and detached the token from the
  transport client; a call with no token attached resolves whenever \<open>gapi.client\<close> can be
  read.  \<open>signOut\<close> rejects if and only if \<open>gapi.client\<close> cannot be read (the library is
  not loaded), or a token is attached and the revocation call throws synchronously or
  \<open>gapi.client\<close> cannot be read after it; whenever it rejects, nothing stored is removed
  and the token stays attached.
\<close>

theorem signOut_clears:
  assumes "signOut p w = (r, w')"
  shows "(r = Inr () \<longrightarrow>
            localStorage w' ACCESS_TOKEN = None \<and> localStorage w' EXPIRES_AT = None
            \<and> localStorage w' SHEET_ID = None \<and> gapi_token w' = None)
       \<and> (client_access p (env w) = None \<and> gapi_token w = None \<longrightarrow> r = Inr ())
       \<and> ((\<exists>exn. r = Inl exn) \<longleftrightarrow>
            client_access p (env w) \<noteq> None
            \<or> (\<exists>token thrown e'.
                  gapi_token w = Some token \<and> revoke p token (env w) = (thrown, e')
                  \<and> (thrown \<noteq> None \<or> client_access p e' \<noteq> None)))
       \<and> ((\<exists>exn. r = Inl exn) \<longrightarrow> localStorage w' = localStorage w \<and> gapi_token w' = gapi_token w)"
proof -
  have cleared: "r = Inr () \<longrightarrow>
            localStorage w' ACCESS_TOKEN = None \<and> localStorage w' EXPIRES_AT = None
            \<and> localStorage w' SHEET_ID = None \<and> gapi_token w' = None"
    using assms
    by (auto simp: signOut_def clearStoredTokens_def resolve_def reject_def record_call_def
        split: option.splits prod.splits)
  have detached: "client_access p (env w) = None \<and> gapi_token w = None \<longrightarrow> r = Inr ()"
    using assms by (auto simp: signOut_def resolve_def)
  have rejects: "(\<exists>exn. r = Inl exn) \<longleftrightarrow>
            client_access p (env w) \<noteq> None
            \<or> (\<exists>token thrown e'.
                  gapi_token w = Some token \<and> revoke p token (env w) = (thrown, e')
                  \<and> (thrown \<noteq> None \<or> client_access p e' \<noteq> None))"
    using assms
    by (auto simp: signOut_def resolve_def reject_def split: option.splits prod.splits)
  have kept: "(\<exists>exn. r = Inl exn) \<longrightarrow>
            localStorage w' = localStorage w \<and> gapi_token w' = gapi_token w"
    using assms
    by (auto simp: signOut_def clearStoredTokens_def resolve_def reject_def record_call_def
        split: option.splits prod.splits)
  from cleared detached rejects kept show ?thesis by blast
qed

theorem signOut_clears_witness:
  "localStorage (snd (signOut service stale_page)) ACCESS_TOKEN = None
   \<and> localStorage (snd (signOut service stale_page)) EXPIRES_AT = None
   \<and> localStorage (snd (signOut service stale_page)) SHEET_ID = None
   \<and> localStorage (snd (signOut service (stale_page\<lparr>gapi_token := Some ''t''\<rparr>))) SHEET_ID = None
   \<and> gapi_token (snd (signOut service (stale_page\<lparr>gapi_token := Some ''t''\<rparr>))) = None
   \<and> signOut service_without_gapi stale_page =
       (Inl (JError ''ReferenceError'' ''gapi is not defined''), stale_page)"
proof -
  have "signOut service stale_page = (Inr (), snd (signOut service stale_page))"
    "signOut service (stale_page\<lparr>gapi_token := Some ''t''\<rparr>) =
       (Inr (), snd (signOut service (stale_page\<lparr>gapi_token := Some ''t''\<rparr>)))"
    by (simp_all add: signOut_def run_defs)
  moreover have "signOut service_without_gapi stale_page =
       (Inl (JError ''ReferenceError'' ''gapi is not defined''), stale_page)"
    by (simp add: signOut_def run_defs)
  ultimately show ?thesis
    using signOut_clears[of service stale_page "Inr ()" "snd (signOut service stale_page)"]
      signOut_clears[of service "stale_page\<lparr>gapi_token := Some ''t''\<rparr>" "Inr ()"
        "snd (signOut service (stale_page\<lparr>gapi_token := Some ''t''\<rparr>))"]
    by simp
qed






section \<open>Properties of the initialization\<close>

lemma init_invariant_loaded: "init_invariant page_loaded"
  by (simp add: init_invariant_def page_loaded_def)

lemma init_invariant_call:
  "init_invariant s \<Longrightarrow> init_invariant (snd (initializeGoogleApi s))"
  unfolding init_invariant_def initializeGoogleApi_def
  by (cases "initPromise s") (auto split: if_splits)

lemma invariant_parts:
  assumes "init_invariant s"
  shows "client_load s q \<noteq> None \<Longrightarrow> executor s q \<noteq> None"
    and "executor s q \<noteq> None \<Longrightarrow> q < allocated s"
    and "executor s q = Some Wait_gapi \<or> executor s q = Some Wait_gis \<Longrightarrow> initPromise s = Some q"
    and "executor s q \<noteq> None \<Longrightarrow> promises s q = Pending \<or> promises s q = Fulfilled \<Longrightarrow>
           initPromise s = Some q"
    and "executor s q \<noteq> None \<Longrightarrow> promises s q = Fulfilled \<Longrightarrow> gisInited s"
    and "gisInited s \<Longrightarrow> initPromise s \<noteq> None"
    and "gisInited s \<Longrightarrow> executor s q \<noteq> Some Wait_gapi \<and> executor s q \<noteq> Some Wait_gis"
  using assms unfolding init_invariant_def by blast+

lemma invariant_Gapi_available: 
  assumes I: "init_invariant s" 
  shows "init_invariant (deliver (Gapi_available q) s)"
proof (cases "executor s q = Some Wait_gapi")
  case False then show ?thesis using I by simp
next
  case True
  note P = invariant_parts[OF I]
  have own: "initPromise s = Some q" using P(3) True by blast
  have ng: "\<not> gisInited s" using P(7)[of q] True by blast
  show ?thesis
    unfolding init_invariant_def using True own ng P(1,2,3,4,5)
    by (simp; blast)
qed


lemma invariant_Gapi_failed:
  assumes I: "init_invariant s"
  shows "init_invariant (deliver (Gapi_failed q e) s)"
proof (cases "executor s q = Some Wait_gapi")
  case False then show ?thesis using I by simp
next
  case True
  note P = invariant_parts[OF I]
  have own: "initPromise s = Some q" using P(3) True by blast
  have ng: "\<not> gisInited s" using P(7)[of q] True by blast
  have others: "executor s r \<noteq> None \<Longrightarrow> promises s r = Pending \<or> promises s r = Fulfilled \<Longrightarrow> r = q"
    for r using P(4)[of r] own by simp
  have active: "executor s r = Some Wait_gapi \<or> executor s r = Some Wait_gis \<Longrightarrow> r = q"
    for r using P(3)[of r] own by simp
  have nf: "executor s r \<noteq> None \<Longrightarrow> promises s r \<noteq> Fulfilled" for r
    using P(5)[of r] ng by blast
  show ?thesis
    unfolding init_invariant_def using True ng P(1,2) others active nf
    by (simp add: settle_def; blast)
qed

lemma invariant_Gis_failed:
  assumes I: "init_invariant s"
  shows "init_invariant (deliver (Gis_failed q e) s)"
proof (cases "executor s q = Some Wait_gis")
  case False then show ?thesis using I by simp
next
  case True
  note P = invariant_parts[OF I]
  have own: "initPromise s = Some q" using P(3) True by blast
  have ng: "\<not> gisInited s" using P(7)[of q] True by blast
  have others: "executor s r \<noteq> None \<Longrightarrow> promises s r = Pending \<or> promises s r = Fulfilled \<Longrightarrow> r = q"
    for r using P(4)[of r] own by simp
  have active: "executor s r = Some Wait_gapi \<or> executor s r = Some Wait_gis \<Longrightarrow> r = q"
    for r using P(3)[of r] own by simp
  have nf: "executor s r \<noteq> None \<Longrightarrow> promises s r \<noteq> Fulfilled" for r
    using P(5)[of r] ng by blast
  show ?thesis
    unfolding init_invariant_def using True ng P(1,2) others active nf
    by (simp add: settle_def; blast)
qed

lemma invariant_Client_failed:
  assumes I: "init_invariant s"
  shows "init_invariant (deliver (Client_failed q e) s)"
proof (cases "client_load s q = Some Loading")
  case False then show ?thesis using I by simp
next
  case True
  note P = invariant_parts[OF I]
  show ?thesis
    unfolding init_invariant_def using True P
    by (simp add: settle_def; blast)
qed

lemma invariant_Client_ready:
  assumes I: "init_invariant s"
  shows "init_invariant (deliver (Client_ready q) s)"
proof (cases "client_load s q = Some Loading")
  case False then show ?thesis using I by simp
next
  case True
  note P = invariant_parts[OF I]
  have ex: "executor s q \<noteq> None" using P(1) True by simp
  have own: "promises s q = Pending \<Longrightarrow> initPromise s = Some q" using P(4) ex by blast
  show ?thesis
    unfolding init_invariant_def using True P ex own
    by (simp add: settle_def checkReady_def; blast)
qed

lemma invariant_Gis_available:
  assumes I: "init_invariant s"
  shows "init_invariant (deliver (Gis_available q) s)"
proof (cases "executor s q = Some Wait_gis")
  case False then show ?thesis using I by simp
next
  case True
  note P = invariant_parts[OF I]
  have own: "initPromise s = Some q" using P(3) True by blast
  have active: "executor s r = Some Wait_gapi \<or> executor s r = Some Wait_gis \<Longrightarrow> r = q"
    for r using P(3)[of r] own by simp
  show ?thesis
    unfolding init_invariant_def using True own active P(1,2,4,5)
    by (simp add: settle_def checkReady_def; blast)
qed

lemma init_invariant_deliver:
  "init_invariant s \<Longrightarrow> init_invariant (deliver sig s)"
  by (cases sig) (simp_all only: invariant_Gapi_available invariant_Gapi_failed invariant_Gis_failed invariant_Client_failed invariant_Client_ready invariant_Gis_available)

lemma init_invariant_after: "init_invariant (after acts)"
proof (induction acts rule: rev_induct)
  case Nil
  show ?case by (simp add: after_def init_invariant_loaded)
next
  case (snoc a acts)
  then show ?case
    by (cases a) (simp_all add: after_def init_invariant_call init_invariant_deliver)
qed

lemma repeat_calls_memoized:
  "initPromise s = Some q \<Longrightarrow> repeat_calls n s = (replicate n q, s)"
  by (induction n) (simp_all add: initializeGoogleApi_def)

text \<open>
  C3.  In every state a history of calls and signals leads to: while the promise of a
  bootstrap is pending, any number of calls of \<open>initializeGoogleApi\<close> return that same
  promise and change nothing, so no second bootstrap is started and every caller
  observes the settlement of the one promise; once it is fulfilled, calls still return
  it at once and start nothing; and when no initialization is memoized, \<open>n + 1\<close> calls
  start exactly one bootstrap and all return its pending promise.
\<close>

theorem initializeGoogleApi_deduplicated:
  fixes acts :: "action list" and n :: nat
  defines "s \<equiv> after acts"
  shows "(\<forall>q. executor s q \<noteq> None \<and> promises s q = Pending \<longrightarrow>
            repeat_calls n s = (replicate n q, s))
       \<and> (\<forall>q. executor s q \<noteq> None \<and> promises s q = Fulfilled \<longrightarrow>
            repeat_calls n s = (replicate n q, s))
       \<and> (initPromise s = None \<longrightarrow>
            (\<exists>s'. repeat_calls (Suc n) s = (replicate (Suc n) (allocated s), s')
               \<and> promises s' (allocated s) = Pending
               \<and> executor s' (allocated s) = Some Wait_gapi
               \<and> started s' = Suc (started s)))"
proof -
  have I: "init_invariant s" by (simp add: s_def init_invariant_after)
  note P = invariant_parts[OF I]
  have idle: "\<exists>s'. repeat_calls (Suc n) s = (replicate (Suc n) (allocated s), s')
               \<and> promises s' (allocated s) = Pending
               \<and> executor s' (allocated s) = Some Wait_gapi
               \<and> started s' = Suc (started s)"
    if none: "initPromise s = None"
  proof -
    have "\<not> gisInited s" using P(6) none by blast
    then have "initializeGoogleApi s =
        (allocated s,
         s\<lparr>promises := (promises s)(allocated s := Pending),
           allocated := Suc (allocated s),
           executor := (executor s)(allocated s \<mapsto> Wait_gapi),
           started := Suc (started s),
           initPromise := Some (allocated s)\<rparr>)"
      using none by (simp add: initializeGoogleApi_def)
    then show ?thesis
      by (simp add: repeat_calls_memoized)
  qed
  show ?thesis
    using P(4) idle by (auto intro: repeat_calls_memoized)
qed

theorem initializeGoogleApi_deduplicated_witness:
  "repeat_calls 3 (after [Call, Signal (Gapi_available 0)]) =
     ([0, 0, 0], after [Call, Signal (Gapi_available 0)])
   \<and> started (after [Call, Signal (Gapi_available 0)]) = 1
   \<and> fst (repeat_calls 3 (after [Call, Signal (Gapi_available 0), Signal (Client_ready 0),
                                  Signal (Gis_available 0)])) = [0, 0, 0]
   \<and> fst (repeat_calls 3 (after [])) = [0, 0, 0]"
proof -
  have a: "executor (after [Call, Signal (Gapi_available 0)]) 0 \<noteq> None
           \<and> promises (after [Call, Signal (Gapi_available 0)]) 0 = Pending"
    by (simp add: after_def page_loaded_def initializeGoogleApi_def)
  have b: "executor (after [Call, Signal (Gapi_available 0), Signal (Client_ready 0),
                            Signal (Gis_available 0)]) 0 \<noteq> None
           \<and> promises (after [Call, Signal (Gapi_available 0), Signal (Client_ready 0),
                               Signal (Gis_available 0)]) 0 = Fulfilled"
    by (simp add: after_def page_loaded_def initializeGoogleApi_def checkReady_def settle_def)
  have c: "initPromise (after []) = None \<and> allocated (after []) = 0"
    by (simp add: after_def page_loaded_def)
  have d: "started (after [Call, Signal (Gapi_available 0)]) = 1"
    by (simp add: after_def page_loaded_def initializeGoogleApi_def)
  show ?thesis
    using initializeGoogleApi_deduplicated[of "[Call, Signal (Gapi_available 0)]" 3]
      initializeGoogleApi_deduplicated[of "[Call, Signal (Gapi_available 0),
         Signal (Client_ready 0), Signal (Gis_available 0)]" 3]
      initializeGoogleApi_deduplicated[of "[]" 2] a b c d
    by (auto simp: numeral_3_eq_3)
qed

text \<open>
  C4 (code defect).  When the \<open>gapi\<close> client fails to initialize or to load an API, the
  \<open>catch\<close> inside the callback of \<open>gapi.load\<close> rejects the promise and leaves
  \<open>initPromise\<close> set: the next call returns the rejected promise and starts no new
  bootstrap.
\<close>

theorem initializeGoogleApi_stuck_after_client_failure:
  fixes err :: jsval
  defines "s \<equiv> after [Call, Signal (Gapi_available 0), Signal (Client_failed 0 err)]"
  shows "promises s 0 = Rejected err \<and> initPromise s = Some 0
         \<and> initializeGoogleApi s = (0, s) \<and> started (snd (initializeGoogleApi s)) = 1"
  by (simp add: s_def after_def page_loaded_def initializeGoogleApi_def settle_def)

theorem initializeGoogleApi_stuck_witness:
  "fst (initializeGoogleApi
          (after [Call, Signal (Gapi_available 0),
                  Signal (Client_failed 0 (new_Error ''API discovery response missing''))])) = 0"
  using initializeGoogleApi_stuck_after_client_failure
          [of "new_Error ''API discovery response missing''"]
  by simp

text \<open>
  The other failure path does what the claim says: after a timeout of the wait for
  \<open>gapi\<close>, \<open>initPromise\<close> is cleared and the next call starts a second bootstrap.
\<close>

lemma initializeGoogleApi_retries_after_timeout:
  fixes timeout :: jsval
  defines "s \<equiv> after [Call, Signal (Gapi_failed 0 timeout)]"
  shows "promises s 0 = Rejected timeout \<and> initPromise s = None
         \<and> fst (initializeGoogleApi s) = 1
         \<and> started (snd (initializeGoogleApi s)) = 2"
  by (simp add: s_def after_def page_loaded_def initializeGoogleApi_def settle_def)

section \<open>Properties of the record store\<close>

lemmas parse_defs = parseFloat_def parseInt_def is_space_def is_digit_in_def digit_value_def
  digits_value_def signed_def read_exponent_def scale10_def Let_def

lemma parseFloat_abc: "parseFloat ''abc'' = NaN"
  by (simp add: parse_defs)

lemma parseFloat_lat: "parseFloat ''20.579117'' = Fin (20579117 / 1000000)"
  by (simp add: parse_defs)

lemma parseFloat_lng: "parseFloat ''-100.399349'' = Fin (- (100399349 / 1000000))"
  by (simp add: parse_defs)

text \<open>
  C10, as stated, fails: a cell that is not empty and does not parse as a number gives
  \<open>NaN\<close>, not \<open>undefined\<close>.
\<close>

theorem rowToFarmacia_unparseable_is_NaN:
  "f_lat (rowToFarmacia (replicate 21 [] @ [''abc''])) = Some NaN"
  by (simp add: rowToFarmacia_def cell_at_def number_or_undefined_def parseFloat_abc nth_append)

text \<open>
  C10 (amended).  For every row, \<open>rowToFarmacia\<close> and \<open>rowToMedico\<close> give, for each of
  \<open>lat\<close> and \<open>lng\<close>: \<open>undefined\<close> when the cell is absent or empty; otherwise the result of
  \<open>parseFloat\<close> on the cell, that is the number of its longest numeric prefix, and \<open>NaN\<close>
  when it has none.
\<close>

theorem row_numeric_fields:
  "reads_number (cell_at row 21) (f_lat (rowToFarmacia row))
   \<and> reads_number (cell_at row 22) (f_lng (rowToFarmacia row))
   \<and> reads_number (cell_at row 13) (m_lat (rowToMedico row))
   \<and> reads_number (cell_at row 14) (m_lng (rowToMedico row))"
  by (simp add: reads_number_def rowToFarmacia_def rowToMedico_def number_or_undefined_def)

theorem row_numeric_fields_witness:
  "f_lat (rowToFarmacia (replicate 21 [] @ [''20.579117'', ''-100.399349'', ''abc'']))
     = Some (Fin (20579117 / 1000000))
   \<and> f_lng (rowToFarmacia (replicate 21 [] @ [''20.579117'', ''-100.399349'']))
     = Some (Fin (- (100399349 / 1000000)))
   \<and> m_lat (rowToMedico [''id'', ''2024'']) = None
   \<and> m_lng (rowToMedico (replicate 14 [] @ [''abc''])) = Some NaN"
  using row_numeric_fields[of "replicate 21 [] @ [''20.579117'', ''-100.399349'', ''abc'']"]
    row_numeric_fields[of "replicate 21 [] @ [''20.579117'', ''-100.399349'']"]
    row_numeric_fields[of "[''id'', ''2024'']"]
    row_numeric_fields[of "replicate 14 [] @ [''abc'']"]
  by (simp add: reads_number_def cell_at_def nth_append parseFloat_abc parseFloat_lat parseFloat_lng)

subsection \<open>Append, then read\<close>

lemma ensureAuthenticated_env:
  "env (snd (ensureAuthenticated service w)) = env w"
  by (auto simp: ensureAuthenticated_def getAccessToken_def signIn_def signIn_callback_def
        service_def client_access_def Let_def resolve_def reject_def record_call_def storeTokens_def
      split: prod.splits sum.splits)

lemma ensureAuthenticated_sheet_id:
  "localStorage (snd (ensureAuthenticated p w)) SHEET_ID = localStorage w SHEET_ID"
  by (auto simp: ensureAuthenticated_def getAccessToken_def signIn_def signIn_callback_def
        Let_def resolve_def reject_def record_call_def storeTokens_def
        SHEET_ID_def ACCESS_TOKEN_def EXPIRES_AT_def
      split: prod.splits sum.splits option.splits)

lemma keys_distinct [simp]:
  "ACCESS_TOKEN \<noteq> EXPIRES_AT" "EXPIRES_AT \<noteq> ACCESS_TOKEN"
  "ACCESS_TOKEN \<noteq> SHEET_ID" "SHEET_ID \<noteq> ACCESS_TOKEN"
  "EXPIRES_AT \<noteq> SHEET_ID" "SHEET_ID \<noteq> EXPIRES_AT"
  by (simp_all add: SHEET_ID_def ACCESS_TOKEN_def EXPIRES_AT_def)

lemma ensureAuthenticated_can:
  assumes "can_authenticate w"
  shows "\<exists>w'. ensureAuthenticated service w = (Inr (), w') \<and> can_authenticate w'
            \<and> env w' = env w \<and> localStorage w' SHEET_ID = localStorage w SHEET_ID"
proof -
  obtain tok ex where s: "localStorage w ACCESS_TOKEN = Some tok" "tok \<noteq> []"
      "localStorage w EXPIRES_AT = Some ex" "ex \<noteq> []"
    using assms
    by (cases "localStorage w ACCESS_TOKEN"; cases "localStorage w EXPIRES_AT")
       (auto simp: can_authenticate_def)
  show ?thesis
  proof (cases "valid_until (Some 10) w")
    case True
    with s assms show ?thesis
      by (simp add: ensureAuthenticated_def getAccessToken_def resolve_def
            can_authenticate_def valid_until_def service_def client_access_def)
  next
    case expired: False
    with assms have tc: "tokenClient w" by (auto simp: can_authenticate_def)
    show ?thesis
    proof (cases "valid_until None w")
      case True
      with s expired tc assms show ?thesis
        by (simp add: ensureAuthenticated_def getAccessToken_def signIn_def record_call_def
              resolve_def can_authenticate_def valid_until_def service_def client_access_def Let_def)
    next
      case False
      with expired assms have idp: "\<not> present (error (identity (env w)))"
          "access_token (identity (env w)) \<noteq> []"
        by (auto simp: can_authenticate_def)
      with s expired tc False show ?thesis
        by (simp add: ensureAuthenticated_def getAccessToken_def signIn_def signIn_callback_def
              record_call_def resolve_def can_authenticate_def valid_until_def service_def client_access_def
              storeTokens_def number_to_string_nonempty Let_def)
    qed
  qed
qed

lemma ensureAuthenticated_success:
  assumes "ensureAuthenticated service w = (Inr u, w')"
  shows "can_authenticate w"
  using assms
  by (auto simp: ensureAuthenticated_def getAccessToken_def signIn_def signIn_callback_def
        record_call_def resolve_def reject_def can_authenticate_def valid_until_def service_def client_access_def
        storeTokens_def Let_def
      split: if_splits prod.splits sum.splits option.splits)

lemma service_calls:
  "Date_now service = clock"
  "Math_random service = (\<lambda>e. (random_text e, e))"
  "spreadsheets_get service = remote_get"
  "files_list service = remote_list"
  "spreadsheets_create service = remote_create"
  "values_batchUpdate service = remote_batchUpdate"
  "values_get service = remote_values_get"
  "values_append service = remote_values_append"
  by (simp_all add: service_def)

lemma map_of_set_file:
  "map_of (files e) i = Some old \<Longrightarrow> map_of (files (set_file i tabs e)) i = Some tabs"
proof -
  have "map_of fs i = Some old \<Longrightarrow>
        map_of (map (\<lambda>(j, ts). if j = i then (j, tabs) else (j, ts)) fs) i = Some tabs" for fs
    by (induction fs) (auto split: if_splits)
  then show "map_of (files e) i = Some old \<Longrightarrow> ?thesis"
    by (simp add: set_file_def)
qed

lemma set_file_services:
  "sheets_down (set_file i tabs e) = sheets_down e"
  "clock (set_file i tabs e) = clock e"
  "identity (set_file i tabs e) = identity e"
  by (simp_all add: set_file_def)

lemma tab_rows_set_tab:
  "tab_rows (set_tab t rows tabs) t = rows"
  "t' \<noteq> t \<Longrightarrow> tab_rows (set_tab t rows tabs) t' = tab_rows tabs t'"
proof -
  show "tab_rows (set_tab t rows tabs) t = rows"
    by (simp add: tab_rows_def set_tab_def)
  have "map_of (filter (\<lambda>(u, _). u \<noteq> t) tabs) t' = map_of tabs t'" if "t' \<noteq> t"
    using that by (induction tabs) auto
  then show "t' \<noteq> t \<Longrightarrow> tab_rows (set_tab t rows tabs) t' = tab_rows tabs t'"
    by (simp add: tab_rows_def set_tab_def)
qed

lemma has_headers_lookup:
  "has_headers e \<Longrightarrow> map_of (files e) i = Some tabs \<Longrightarrow>
     tab_rows tabs FARMACIAS_TAB \<noteq> [] \<and> tab_rows tabs MEDICOS_TAB \<noteq> []"
  by (auto simp: has_headers_def dest: map_of_SomeD)

lemma has_headers_new_file:
  assumes "has_headers e"
    and "tab_rows tabs FARMACIAS_TAB \<noteq> []" and "tab_rows tabs MEDICOS_TAB \<noteq> []"
  shows "has_headers (set_file i tabs (e\<lparr>files := (i, init) # files e\<rparr>))"
  using assms by (auto simp: has_headers_def set_file_def split: if_splits)

lemma range_names:
  "range_tab (FARMACIAS_TAB @ ''!A1'') = FARMACIAS_TAB"
  "range_tab (MEDICOS_TAB @ ''!A1'') = MEDICOS_TAB"
  "range_tab (FARMACIAS_TAB @ ''!A:Z'') = FARMACIAS_TAB"
  "range_tab (MEDICOS_TAB @ ''!A:Z'') = MEDICOS_TAB"
  "range_tab (FARMACIAS_TAB @ ''!A2:Z'') = FARMACIAS_TAB"
  "range_tab (MEDICOS_TAB @ ''!A2:Z'') = MEDICOS_TAB"
  "range_first_row (FARMACIAS_TAB @ ''!A2:Z'') = 2"
  "range_first_row (MEDICOS_TAB @ ''!A2:Z'') = 2"
  "FARMACIAS_TAB \<noteq> MEDICOS_TAB" "MEDICOS_TAB \<noteq> FARMACIAS_TAB"
  by (simp_all add: range_tab_def range_first_row_def FARMACIAS_TAB_def MEDICOS_TAB_def
        is_digit_in_def digit_value_def digits_value_def)

lemma headers_written:
  "tab_rows (write_ranges
       [(FARMACIAS_TAB @ ''!A1'', [map CStr FARMACIAS_HEADERS]),
        (MEDICOS_TAB @ ''!A1'', [map CStr MEDICOS_HEADERS])] tabs) FARMACIAS_TAB \<noteq> []
   \<and> tab_rows (write_ranges
       [(FARMACIAS_TAB @ ''!A1'', [map CStr FARMACIAS_HEADERS]),
        (MEDICOS_TAB @ ''!A1'', [map CStr MEDICOS_HEADERS])] tabs) MEDICOS_TAB \<noteq> []"
  by (simp add: range_names tab_rows_set_tab)

lemma verifySheetExists_env:
  "env (snd (verifySheetExists service i w)) = env w"
proof -
  let ?w = "record_call (Ev_verifySheetExists i) w"
  have e: "env (snd (ensureAuthenticated service ?w)) = env w"
    by (simp add: ensureAuthenticated_env record_call_def)
  show ?thesis
  proof (cases "ensureAuthenticated service ?w")
    case (Pair r w1)
    with e show ?thesis
      by (cases r)
         (auto simp: verifySheetExists_def await_def try_catch_def call_out_def service_calls
            remote_get_def rethrow_with_def reject_def
          split: option.splits sum.splits if_splits)
  qed
qed

lemma findExistingSheet_env:
  "env (snd (findExistingSheet service w)) = env w"
proof -
  let ?w = "record_call Ev_findExistingSheet w"
  have e: "env (snd (ensureAuthenticated service ?w)) = env w"
    by (simp add: ensureAuthenticated_env record_call_def)
  show ?thesis
  proof (cases "ensureAuthenticated service ?w")
    case (Pair r w1)
    with e show ?thesis
      by (cases r)
         (auto simp: findExistingSheet_def await_def try_catch_def call_out_def service_calls
            remote_list_def rethrow_with_def reject_def resolve_def
          split: option.splits sum.splits if_splits list.splits)
  qed
qed

lemma present_text_of: "present x \<Longrightarrow> text_of x \<noteq> []"
  by (cases x) simp_all

lemma present_Some: "present x \<Longrightarrow> x = Some (text_of x)"
  by (cases x) simp_all

lemma verifySheetExists_sheet_id:
  "localStorage (snd (verifySheetExists p i w)) SHEET_ID = localStorage w SHEET_ID"
proof -
  let ?w = "record_call (Ev_verifySheetExists i) w"
  have e: "localStorage (snd (ensureAuthenticated p ?w)) SHEET_ID = localStorage w SHEET_ID"
    by (simp add: ensureAuthenticated_sheet_id) (simp add: record_call_def)
  show ?thesis
  proof (cases "ensureAuthenticated p ?w")
    case (Pair r w1)
    with e show ?thesis
      by (cases r)
         (auto simp: verifySheetExists_def await_def try_catch_def call_out_def
            rethrow_with_def reject_def
          split: prod.splits sum.splits)
  qed
qed

lemma createSheet_present:
  "createSheet p w = (Inr i, w') \<Longrightarrow> i \<noteq> []"
  by (cases "ensureAuthenticated p (record_call Ev_createSheet w)")
     (auto simp: createSheet_def await_def try_catch_def call_out_def
        rethrow_with_def reject_def resolve_def
      dest: present_text_of
      split: prod.splits sum.splits if_splits option.splits)

lemma initializeSheet_stores:
  assumes "initializeSheet p w = (Inr i, w')"
  shows "i \<noteq> [] \<and> localStorage w' SHEET_ID = Some i"
proof -
  have create: "i \<noteq> [] \<and> localStorage w' SHEET_ID = Some i"
    if "initializeSheet_create p v = (Inr i, w')" for v
    using that createSheet_present[of p v]
    by (cases "createSheet p v")
       (auto simp: initializeSheet_create_def try_catch_def await_def resolve_def reject_def
          storeSheetId_def split: sum.splits)
  have search: "i \<noteq> [] \<and> localStorage w' SHEET_ID = Some i"
    if "initializeSheet_search p v = (Inr i, w')" for v
    using that create
    by (cases "findExistingSheet p v")
       (auto simp: initializeSheet_search_def resolve_def storeSheetId_def
          dest: present_text_of
          split: sum.splits if_splits option.splits)
  show ?thesis
  proof (cases "present (getStoredSheetId w)")
    case False
    with assms search show ?thesis by (simp add: initializeSheet_def)
  next
    case True
    then obtain j where j: "localStorage w SHEET_ID = Some j" "j \<noteq> []"
      by (cases "localStorage w SHEET_ID") (auto simp: getStoredSheetId_def)
    show ?thesis
    proof (cases "verifySheetExists p j w")
      case (Pair r v)
      then have "localStorage v SHEET_ID = Some j"
        using verifySheetExists_sheet_id[of p j w] j by simp
      with Pair j assms search show ?thesis
        by (cases r) (auto simp: initializeSheet_def getStoredSheetId_def resolve_def)
    qed
  qed
qed

lemma writeHeaders_service:
  assumes "writeHeaders service i w = (Inr u, w')"
  shows "\<exists>tabs. map_of (files (env w)) i = Some tabs
           \<and> env w' =
               set_file i
                 (write_ranges
                    [(FARMACIAS_TAB @ ''!A1'', [map CStr FARMACIAS_HEADERS]),
                     (MEDICOS_TAB @ ''!A1'', [map CStr MEDICOS_HEADERS])] tabs) (env w)"
proof -
  let ?w = "record_call (Ev_writeHeaders i) w"
  have e: "env (snd (ensureAuthenticated service ?w)) = env w"
    by (simp add: ensureAuthenticated_env record_call_def)
  show ?thesis
  proof (cases "ensureAuthenticated service ?w")
    case (Pair r w1)
    with e assms show ?thesis
      by (cases r)
         (auto simp: writeHeaders_def await_def try_catch_def call_out_def service_calls
            remote_batchUpdate_def rethrow_with_def reject_def
          split: option.splits sum.splits if_splits)
  qed
qed

lemma createSheet_headers:
  assumes "createSheet service w = (Inr i, w')" and "has_headers (env w)"
  shows "has_headers (env w')"
proof -
  let ?w = "record_call Ev_createSheet w"
  have e: "env (snd (ensureAuthenticated service ?w)) = env w"
    by (simp add: ensureAuthenticated_env record_call_def)
  obtain r b where a: "ensureAuthenticated service ?w = (r, b)"
    by (cases "ensureAuthenticated service ?w")
  with e have eb: "env b = env w" by simp
  from assms(1) a obtain u where r: "r = Inr u"
    by (cases r) (auto simp: createSheet_def await_def)
  obtain c e1 where c: "remote_create SHEET_TITLE [FARMACIAS_TAB, MEDICOS_TAB] (env b) = (c, e1)"
    by (cases "remote_create SHEET_TITLE [FARMACIAS_TAB, MEDICOS_TAB] (env b)")
  from assms(1) a r c obtain j where j: "c = Inr (Some j)" "j \<noteq> []"
    and h: "writeHeaders service j (b\<lparr>env := e1\<rparr>) = (Inr (), w')"
    by (cases c)
       (auto simp: createSheet_def await_def try_catch_def call_out_def service_calls
          rethrow_with_def reject_def resolve_def
        dest: present_text_of present_Some
        split: sum.splits if_splits prod.splits)
  from c j eb have e1: "e1 = (env w)\<lparr>files := (j, map (\<lambda>t. (t, [])) [FARMACIAS_TAB, MEDICOS_TAB])
                                        # files (env w)\<rparr>"
    by (auto simp: remote_create_def Let_def split: option.splits)
  from writeHeaders_service[OF h] obtain tabs where
    "env w' = set_file j
                 (write_ranges
                    [(FARMACIAS_TAB @ ''!A1'', [map CStr FARMACIAS_HEADERS]),
                     (MEDICOS_TAB @ ''!A1'', [map CStr MEDICOS_HEADERS])] tabs) e1"
    by auto
  then show ?thesis
    using e1 has_headers_new_file[OF assms(2)] headers_written by simp
qed

lemma initializeSheet_headers:
  assumes "initializeSheet service w = (Inr i, w')" and "has_headers (env w)"
  shows "has_headers (env w')"
proof -
  have create: "has_headers (env w')"
    if "initializeSheet_create service v = (Inr i, w')" "has_headers (env v)" for v
    using that createSheet_headers[of v]
    by (cases "createSheet service v")
       (auto simp: initializeSheet_create_def try_catch_def await_def resolve_def reject_def
          storeSheetId_def split: sum.splits)
  have search: "has_headers (env w')"
    if "initializeSheet_search service v = (Inr i, w')" "has_headers (env v)" for v
    using that create findExistingSheet_env[of v]
    by (cases "findExistingSheet service v")
       (auto simp: initializeSheet_search_def resolve_def storeSheetId_def
          split: sum.splits if_splits option.splits)
  show ?thesis
  proof (cases "present (getStoredSheetId w)")
    case False
    with assms search show ?thesis by (simp add: initializeSheet_def)
  next
    case True
    show ?thesis
    proof (cases "verifySheetExists service (text_of (getStoredSheetId w)) w")
      case (Pair r v)
      then have "env v = env w"
        using verifySheetExists_env[of "text_of (getStoredSheetId w)" w] by simp
      with Pair True assms search show ?thesis
        by (cases r) (auto simp: initializeSheet_def resolve_def)
    qed
  qed
qed

text \<open>The resolver on a page that can authenticate and holds the ID of an existing sheet.\<close>

lemma initializeSheet_cached:
  assumes "can_authenticate w" and "localStorage w SHEET_ID = Some i" and "i \<noteq> []"
    and "sheets_down (env w) = None" and "map_of (files (env w)) i = Some tabs"
  shows "\<exists>w'. initializeSheet service w = (Inr i, w') \<and> env w' = env w
            \<and> can_authenticate w'"
proof -
  let ?w = "record_call (Ev_verifySheetExists i) w"
  have "can_authenticate ?w"
    using assms(1) by (simp add: can_authenticate_def valid_until_def record_call_def)
  from ensureAuthenticated_can[OF this] obtain v where
    v: "ensureAuthenticated service ?w = (Inr (), v)" "can_authenticate v" "env v = env w"
    by (auto simp: record_call_def)
  have "can_authenticate (v\<lparr>env := env w\<rparr>)"
    using v(2,3) by (simp add: can_authenticate_def valid_until_def)
  with v assms show ?thesis
    by (simp add: initializeSheet_def getStoredSheetId_def verifySheetExists_def await_def
          try_catch_def call_out_def service_calls remote_get_def resolve_def)
qed

lemma kept_text_cell: "kept_text x \<Longrightarrow> or_undefined (Some (text_of x)) = x"
  by (cases x) (simp_all add: kept_text_def or_undefined_def)

lemma kept_number_cell:
  "kept_number x \<Longrightarrow> number_or_undefined (Some (render_cell (number_or_empty x))) = x"
  by (cases x) (simp_all add: kept_number_def number_or_undefined_def number_to_string_nonempty)

lemma rowToFarmacia_farmaciaToRow:
  fixes e :: Farmacia
  assumes "kept_Farmacia e"
  shows "rowToFarmacia (map render_cell (farmaciaToRow e)) = e"
  using assms
  by (simp add: rowToFarmacia_def farmaciaToRow_def cell_at_def kept_Farmacia_def
        kept_text_cell kept_number_cell)

lemma generateId_service:
  "generateId service e = (int_to_radix 36 (clock e) @ ''-'' @ take 7 (drop 2 (random_text e)), e)"
  by (simp add: generateId_def service_def)

lemma newFarmacia_service:
  "newFarmacia service farmacia w =
     (Farmacia_fields.extend farmacia
        (Farmacia.fields (int_to_radix 36 (clock (env w)) @ ''-''
                            @ take 7 (drop 2 (random_text (env w))))
           (toISOString (clock (env w)))), w)"
  by (simp add: newFarmacia_def generateId_service) (simp add: service_def)

lemma Farmacia_extend_id:
  "f_id (Farmacia_fields.extend farmacia (Farmacia.fields i c)) = i"
  "f_createdAt (Farmacia_fields.extend farmacia (Farmacia.fields i c)) = c"
  by (simp_all add: Farmacia_fields.extend_def Farmacia.fields_def)

lemma Farmacia_extend_kept:
  "kept_Farmacia (Farmacia_fields.extend farmacia ext) = kept_Farmacia farmacia"
  by (simp add: Farmacia_fields.extend_def kept_Farmacia_def)

lemma toISOString_nonempty: "toISOString t \<noteq> []"
  by (simp add: toISOString_def Let_def split: prod.splits)

lemma can_authenticate_frame:
  assumes "can_authenticate w"
    and "localStorage w' ACCESS_TOKEN = localStorage w ACCESS_TOKEN"
    and "localStorage w' EXPIRES_AT = localStorage w EXPIRES_AT"
    and "tokenClient w' = tokenClient w"
    and "clock (env w') = clock (env w)" and "identity (env w') = identity (env w)"
  shows "can_authenticate w'"
  using assms by (simp add: can_authenticate_def valid_until_def)

text \<open>The page and the remote after a write that succeeded.\<close>

lemma appended_on_service:
  assumes init: "initializeSheet service w = (Inr i, wa)"
    and auth: "ensureAuthenticated service wa = (Inr (), wb)"
    and app: "remote_values_append i (t @ ''!A:Z'') [row] (env wb) = (Inr (), e1)"
    and tab: "range_tab (t @ ''!A:Z'') = t"
    and hdr: "has_headers (env w)" and t: "t = FARMACIAS_TAB \<or> t = MEDICOS_TAB"
  shows "\<exists>tabs old. can_authenticate (wb\<lparr>env := e1\<rparr>)
           \<and> localStorage (wb\<lparr>env := e1\<rparr>) SHEET_ID = Some i \<and> i \<noteq> []
           \<and> sheets_down e1 = None \<and> map_of (files e1) i = Some tabs
           \<and> tab_rows tabs t = old @ [row] \<and> old \<noteq> []"
proof -
  from initializeSheet_stores[OF init] have i: "i \<noteq> []" "localStorage wa SHEET_ID = Some i"
    by simp_all
  have hwa: "has_headers (env wa)" using initializeSheet_headers[OF init hdr] .
  from ensureAuthenticated_can[OF ensureAuthenticated_success[OF auth]] auth
  have b: "can_authenticate wb" "env wb = env wa" "localStorage wb SHEET_ID = Some i"
    using i by auto
  from app obtain tabs0 where
    up: "sheets_down (env wb) = None" "map_of (files (env wb)) i = Some tabs0"
        "e1 = set_file i (set_tab t (tab_rows tabs0 t @ [row]) tabs0) (env wb)"
    by (auto simp: remote_values_append_def tab split: option.splits)
  have old: "tab_rows tabs0 t \<noteq> []"
    using has_headers_lookup[of "env wb" i tabs0] hwa b(2) up(2) t by auto
  have "can_authenticate (wb\<lparr>env := e1\<rparr>)"
    using b(1) by (rule can_authenticate_frame) (simp_all add: up(3) set_file_services)
  moreover have "map_of (files e1) i = Some (set_tab t (tab_rows tabs0 t @ [row]) tabs0)"
    using map_of_set_file[OF up(2)] up(3) by simp
  ultimately show ?thesis
    using b(3) i(1) up(1) old
    by (simp add: up(3) set_file_services tab_rows_set_tab)
qed

lemma read_on_service:
  assumes can: "can_authenticate w" and sid: "localStorage w SHEET_ID = Some i" "i \<noteq> []"
    and up: "sheets_down (env w) = None" and fl: "map_of (files (env w)) i = Some tabs"
    and rows: "tab_rows tabs t = old @ [row]" "old \<noteq> []"
    and rng: "range_tab (t @ ''!A2:Z'') = t" "range_first_row (t @ ''!A2:Z'') = 2"
  shows "\<exists>wa wb. initializeSheet service w = (Inr i, wa)
           \<and> ensureAuthenticated service wa = (Inr (), wb)
           \<and> call_out (values_get service i (t @ ''!A2:Z'')) wb =
               (Inr (Some (map (map render_cell) (drop 1 old @ [row]))), wb)"
proof -
  from initializeSheet_cached[OF can sid up fl] obtain wa where
    a: "initializeSheet service w = (Inr i, wa)" "env wa = env w" "can_authenticate wa"
    by auto
  from ensureAuthenticated_can[OF a(3)] obtain wb where
    b: "ensureAuthenticated service wa = (Inr (), wb)" "env wb = env wa"
    by auto
  have d: "drop (2 - 1) (old @ [row]) = drop 1 old @ [row]" "drop 1 old @ [row] \<noteq> []"
    using rows(2) by (cases old; simp)+
  have "call_out (values_get service i (t @ ''!A2:Z'')) wb =
          (Inr (Some (map (map render_cell) (drop 1 old @ [row]))), wb)"
    using up fl rows(1) rng a(2) b(2) d
    by (simp add: call_out_def service_calls remote_values_get_def del: drop_append)
  with a(1) b(1) show ?thesis by blast
qed

lemma try_catch_rethrow_success:
  "try_catch m (rethrow_with pre) w = (Inr x, w') \<Longrightarrow> m w = (Inr x, w')"
  by (cases "m w")
     (auto simp: try_catch_def rethrow_with_def reject_def split: sum.splits)

lemma await_success:
  "await m f w = (Inr y, w'') \<Longrightarrow> \<exists>x w'. m w = (Inr x, w') \<and> f x w' = (Inr y, w'')"
  by (cases "m w") (auto simp: await_def split: sum.splits)

lemma writeFarmacia_success:
  assumes "writeFarmacia service farmacia w = (Inr new, w1)"
  shows "\<exists>i wa wb e1. initializeSheet service w = (Inr i, wa)
           \<and> ensureAuthenticated service wa = (Inr (), wb)
           \<and> newFarmacia service farmacia wb = (new, wb)
           \<and> remote_values_append i (FARMACIAS_TAB @ ''!A:Z'') [farmaciaToRow new] (env wb)
               = (Inr (), e1)
           \<and> w1 = wb\<lparr>env := e1\<rparr>"
proof -
  from assms obtain i wa where
    init: "initializeSheet service w = (Inr i, wa)" and
    rest: "await (ensureAuthenticated service)
             (\<lambda>_ w. case newFarmacia service farmacia w of
                  (new, w') \<Rightarrow>
                    await
                      (call_out
                         (values_append service i (FARMACIAS_TAB @ ''!A:Z'')
                            [farmaciaToRow new]))
                      (\<lambda>_. resolve new) w') wa = (Inr new, w1)"
    unfolding writeFarmacia_def
    by (blast dest: try_catch_rethrow_success await_success)
  from await_success[OF rest] obtain u wb where
    auth: "ensureAuthenticated service wa = (Inr u, wb)" and
    app: "await
            (call_out
               (values_append service i (FARMACIAS_TAB @ ''!A:Z'')
                  [farmaciaToRow (fst (newFarmacia service farmacia wb))]))
            (\<lambda>_. resolve (fst (newFarmacia service farmacia wb))) wb = (Inr new, w1)"
    by (auto simp: newFarmacia_service)
  from await_success[OF app] have
    "new = fst (newFarmacia service farmacia wb)
     \<and> (\<exists>e1. remote_values_append i (FARMACIAS_TAB @ ''!A:Z'')
                [farmaciaToRow (fst (newFarmacia service farmacia wb))] (env wb) = (Inr (), e1)
           \<and> w1 = wb\<lparr>env := e1\<rparr>)"
    by (auto simp: call_out_def service_calls resolve_def split: prod.splits)
  with init auth show ?thesis
    by (auto simp: newFarmacia_service)
qed

lemma append_then_read_Farmacia:
  fixes w :: "remote world"
  assumes headers: "has_headers (env w)"
    and written: "writeFarmacia service farmacia w = (Inr new, w1)"
    and kept: "kept_Farmacia farmacia"
  shows "(\<exists>es w2. readFarmacias service w1 = (Inr es, w2) \<and> new \<in> set es)
            \<and> f_id new \<noteq> [] \<and> f_createdAt new \<noteq> []"
proof -
  from writeFarmacia_success[OF written] obtain i wa wb e1 where
    init: "initializeSheet service w = (Inr i, wa)" and
    auth: "ensureAuthenticated service wa = (Inr (), wb)" and
    new: "newFarmacia service farmacia wb = (new, wb)" and
    app: "remote_values_append i (FARMACIAS_TAB @ ''!A:Z'') [farmaciaToRow new] (env wb)
            = (Inr (), e1)" and
    w1: "w1 = wb\<lparr>env := e1\<rparr>"
    by blast
  from appended_on_service[OF init auth app _ headers] obtain tabs old where
    st: "can_authenticate w1" "localStorage w1 SHEET_ID = Some i" "i \<noteq> []"
        "sheets_down (env w1) = None" "map_of (files (env w1)) i = Some tabs"
        "tab_rows tabs FARMACIAS_TAB = old @ [farmaciaToRow new]" "old \<noteq> []"
    using w1 by (auto simp: range_names)
  from read_on_service[OF st] obtain wc wd where
    rd: "initializeSheet service w1 = (Inr i, wc)"
        "ensureAuthenticated service wc = (Inr (), wd)"
        "call_out (values_get service i (FARMACIAS_TAB @ ''!A2:Z'')) wd =
           (Inr (Some (map (map render_cell) (drop 1 old @ [farmaciaToRow new]))), wd)"
    by (auto simp: range_names)
  have fields: "f_id new \<noteq> []" "f_createdAt new \<noteq> []" "kept_Farmacia new"
    using new kept
    by (auto simp: newFarmacia_service Farmacia_extend_id Farmacia_extend_kept
          toISOString_nonempty)
  have "readFarmacias service w1 =
          (Inr (map rowToFarmacia (map (map render_cell) (drop 1 old @ [farmaciaToRow new]))), wd)"
    using rd by (simp add: readFarmacias_def try_catch_def await_def resolve_def)
  moreover have "new \<in> set (map rowToFarmacia
                    (map (map render_cell) (drop 1 old @ [farmaciaToRow new])))"
    using rowToFarmacia_farmaciaToRow[OF fields(3)] by simp
  ultimately show ?thesis using fields(1,2) by blast
qed

lemma rowToMedico_medicoToRow:
  fixes e :: Medico
  assumes "kept_Medico e"
  shows "rowToMedico (map render_cell (medicoToRow e)) = e"
  using assms
  by (simp add: rowToMedico_def medicoToRow_def cell_at_def kept_Medico_def
        kept_text_cell kept_number_cell)

lemma newMedico_service:
  "newMedico service medico w =
     (Medico_fields.extend medico
        (Medico.fields (int_to_radix 36 (clock (env w)) @ ''-''
                            @ take 7 (drop 2 (random_text (env w))))
           (toISOString (clock (env w)))), w)"
  by (simp add: newMedico_def generateId_service) (simp add: service_def)

lemma Medico_extend_id:
  "m_id (Medico_fields.extend medico (Medico.fields i c)) = i"
  "m_createdAt (Medico_fields.extend medico (Medico.fields i c)) = c"
  by (simp_all add: Medico_fields.extend_def Medico.fields_def)

lemma Medico_extend_kept:
  "kept_Medico (Medico_fields.extend medico ext) = kept_Medico medico"
  by (simp add: Medico_fields.extend_def kept_Medico_def)

lemma writeMedico_success:
  assumes "writeMedico service medico w = (Inr new, w1)"
  shows "\<exists>i wa wb e1. initializeSheet service w = (Inr i, wa)
           \<and> ensureAuthenticated service wa = (Inr (), wb)
           \<and> newMedico service medico wb = (new, wb)
           \<and> remote_values_append i (MEDICOS_TAB @ ''!A:Z'') [medicoToRow new] (env wb)
               = (Inr (), e1)
           \<and> w1 = wb\<lparr>env := e1\<rparr>"
proof -
  from assms obtain i wa where
    init: "initializeSheet service w = (Inr i, wa)" and
    rest: "await (ensureAuthenticated service)
             (\<lambda>_ w. case newMedico service medico w of
                  (new, w') \<Rightarrow>
                    await
                      (call_out
                         (values_append service i (MEDICOS_TAB @ ''!A:Z'')
                            [medicoToRow new]))
                      (\<lambda>_. resolve new) w') wa = (Inr new, w1)"
    unfolding writeMedico_def
    by (blast dest: try_catch_rethrow_success await_success)
  from await_success[OF rest] obtain u wb where
    auth: "ensureAuthenticated service wa = (Inr u, wb)" and
    app: "await
            (call_out
               (values_append service i (MEDICOS_TAB @ ''!A:Z'')
                  [medicoToRow (fst (newMedico service medico wb))]))
            (\<lambda>_. resolve (fst (newMedico service medico wb))) wb = (Inr new, w1)"
    by (auto simp: newMedico_service)
  from await_success[OF app] have
    "new = fst (newMedico service medico wb)
     \<and> (\<exists>e1. remote_values_append i (MEDICOS_TAB @ ''!A:Z'')
                [medicoToRow (fst (newMedico service medico wb))] (env wb) = (Inr (), e1)
           \<and> w1 = wb\<lparr>env := e1\<rparr>)"
    by (auto simp: call_out_def service_calls resolve_def split: prod.splits)
  with init auth show ?thesis
    by (auto simp: newMedico_service)
qed

lemma append_then_read_Medico:
  fixes w :: "remote world"
  assumes headers: "has_headers (env w)"
    and written: "writeMedico service medico w = (Inr new, w1)"
    and kept: "kept_Medico medico"
  shows "(\<exists>es w2. readMedicos service w1 = (Inr es, w2) \<and> new \<in> set es)
            \<and> m_id new \<noteq> [] \<and> m_createdAt new \<noteq> []"
proof -
  from writeMedico_success[OF written] obtain i wa wb e1 where
    init: "initializeSheet service w = (Inr i, wa)" and
    auth: "ensureAuthenticated service wa = (Inr (), wb)" and
    new: "newMedico service medico wb = (new, wb)" and
    app: "remote_values_append i (MEDICOS_TAB @ ''!A:Z'') [medicoToRow new] (env wb)
            = (Inr (), e1)" and
    w1: "w1 = wb\<lparr>env := e1\<rparr>"
    by blast
  from appended_on_service[OF init auth app _ headers] obtain tabs old where
    st: "can_authenticate w1" "localStorage w1 SHEET_ID = Some i" "i \<noteq> []"
        "sheets_down (env w1) = None" "map_of (files (env w1)) i = Some tabs"
        "tab_rows tabs MEDICOS_TAB = old @ [medicoToRow new]" "old \<noteq> []"
    using w1 by (auto simp: range_names)
  from read_on_service[OF st] obtain wc wd where
    rd: "initializeSheet service w1 = (Inr i, wc)"
        "ensureAuthenticated service wc = (Inr (), wd)"
        "call_out (values_get service i (MEDICOS_TAB @ ''!A2:Z'')) wd =
           (Inr (Some (map (map render_cell) (drop 1 old @ [medicoToRow new]))), wd)"
    by (auto simp: range_names)
  have fields: "m_id new \<noteq> []" "m_createdAt new \<noteq> []" "kept_Medico new"
    using new kept
    by (auto simp: newMedico_service Medico_extend_id Medico_extend_kept
          toISOString_nonempty)
  have "readMedicos service w1 =
          (Inr (map rowToMedico (map (map render_cell) (drop 1 old @ [medicoToRow new]))), wd)"
    using rd by (simp add: readMedicos_def try_catch_def await_def resolve_def)
  moreover have "new \<in> set (map rowToMedico
                    (map (map render_cell) (drop 1 old @ [medicoToRow new])))"
    using rowToMedico_medicoToRow[OF fields(3)] by simp
  ultimately show ?thesis using fields(1,2) by blast
qed

text \<open>
  C9 (amended).  On a remote that keeps what is appended, whose tabs have their header
  row: for both variants and every partial entity whose optional texts are absent or
  non-empty and whose numbers are absent or read back from their text, a successful
  append followed by reading all rows of the same variant succeeds and yields a
  sequence containing the completed entity the append returned, field for field; and
  the \<open>id\<close> and \<open>createdAt\<close> of that entity are non-empty.
\<close>

theorem append_then_read:
  fixes w :: "remote world"
  assumes "has_headers (env w)"
  shows "(\<forall>farmacia new w1.
            writeFarmacia service farmacia w = (Inr new, w1) \<and> kept_Farmacia farmacia \<longrightarrow>
            (\<exists>es w2. readFarmacias service w1 = (Inr es, w2) \<and> new \<in> set es)
            \<and> f_id new \<noteq> [] \<and> f_createdAt new \<noteq> [])
       \<and> (\<forall>medico new w1.
            writeMedico service medico w = (Inr new, w1) \<and> kept_Medico medico \<longrightarrow>
            (\<exists>es w2. readMedicos service w1 = (Inr es, w2) \<and> new \<in> set es)
            \<and> m_id new \<noteq> [] \<and> m_createdAt new \<noteq> [])"
  using append_then_read_Farmacia[OF assms] append_then_read_Medico[OF assms]
  by blast

lemma number_text: "number_to_string (Fin (20579117 / 1000000)) = ''20.579117''"
  by code_simp

lemmas store_defs =
  ready_page_def no_fields_def writeFarmacia_def readFarmacias_def newFarmacia_def
  no_medico_fields_def writeMedico_def readMedicos_def newMedico_def medicoToRow_def
  rowToMedico_def Medico_fields.extend_def Medico.fields_def
  generateId_def initializeSheet_def remote_values_append_def remote_values_get_def
  set_file_def set_tab_def tab_rows_def range_names int_to_radix_def nat_to_radix.simps
  digit_char_def farmaciaToRow_def rowToFarmacia_def cell_at_def or_undefined_def
  number_or_undefined_def Farmacia_fields.extend_def Farmacia.fields_def id_and_email_def

text \<open>
  C9, as stated, fails: a partial entity whose \<open>email\<close> is the empty text is returned by
  the append with that \<open>email\<close> and read back with \<open>email\<close> undefined.
\<close>

theorem append_then_read_empty_text:
  "map_sum id id_and_email
     (fst (writeFarmacia service (no_fields\<lparr>f_email := Some []\<rparr>) ready_page))
     = Inr (''rs-4fzyo82'', Some [])
   \<and> map_sum id (map id_and_email)
       (fst (readFarmacias service
               (snd (writeFarmacia service (no_fields\<lparr>f_email := Some []\<rparr>) ready_page))))
     = Inr [(''rs-4fzyo82'', None)]"
  by (simp add: run_defs store_defs parseInt_5000)

theorem append_then_read_witness:
  "(\<exists>new es.
      fst (writeFarmacia service
             (no_fields\<lparr>f_email := Some ''a@b.mx'', f_lat := Some (Fin (20579117 / 1000000))\<rparr>)
             ready_page) = Inr new
      \<and> fst (readFarmacias service
               (snd (writeFarmacia service
                       (no_fields\<lparr>f_email := Some ''a@b.mx'',
                                  f_lat := Some (Fin (20579117 / 1000000))\<rparr>)
                       ready_page))) = Inr es
      \<and> new \<in> set es \<and> f_email new = Some ''a@b.mx'')
   \<and> (\<exists>new es.
      fst (writeMedico service (no_medico_fields\<lparr>m_ciudad := Some ''Queretaro''\<rparr>) ready_page)
        = Inr new
      \<and> fst (readMedicos service
               (snd (writeMedico service (no_medico_fields\<lparr>m_ciudad := Some ''Queretaro''\<rparr>)
                       ready_page))) = Inr es
      \<and> new \<in> set es \<and> m_ciudad new = Some ''Queretaro'')"
proof -
  let ?input = "no_fields\<lparr>f_email := Some ''a@b.mx'', f_lat := Some (Fin (20579117 / 1000000))\<rparr>"
  let ?written = "writeFarmacia service ?input ready_page"
  let ?m_input = "no_medico_fields\<lparr>m_ciudad := Some ''Queretaro''\<rparr>"
  let ?m_written = "writeMedico service ?m_input ready_page"
  have h: "has_headers (env ready_page)"
    by (simp add: has_headers_def ready_page_def fresh_page_def granting_def tab_rows_def
          range_names)
  have k: "kept_Farmacia ?input"
    by (simp add: kept_Farmacia_def kept_text_def kept_number_def no_fields_def number_text
          parse_defs)
  have "\<exists>new. fst ?written = Inr new \<and> f_email new = Some ''a@b.mx''"
    by (simp add: run_defs store_defs parseInt_5000)
  then obtain new where n: "?written = (Inr new, snd ?written)" "f_email new = Some ''a@b.mx''"
    by (metis prod.collapse)
  with append_then_read[OF h] k obtain es w2 where
    "readFarmacias service (snd ?written) = (Inr es, w2)" "new \<in> set es"
    by blast
  with n have farmacia: "\<exists>new es. fst ?written = Inr new
      \<and> fst (readFarmacias service (snd ?written)) = Inr es
      \<and> new \<in> set es \<and> f_email new = Some ''a@b.mx''"
    by (metis fst_conv)
  have mk: "kept_Medico ?m_input"
    by (simp add: kept_Medico_def kept_text_def kept_number_def no_medico_fields_def)
  have "\<exists>new. fst ?m_written = Inr new \<and> m_ciudad new = Some ''Queretaro''"
    by (simp add: run_defs store_defs parseInt_5000)
  then obtain m where m: "?m_written = (Inr m, snd ?m_written)" "m_ciudad m = Some ''Queretaro''"
    by (metis prod.collapse)
  with append_then_read[OF h] mk obtain ms w3 where
    "readMedicos service (snd ?m_written) = (Inr ms, w3)" "m \<in> set ms"
    by blast
  with m have "\<exists>new es. fst ?m_written = Inr new
      \<and> fst (readMedicos service (snd ?m_written)) = Inr es
      \<and> new \<in> set es \<and> m_ciudad new = Some ''Queretaro''"
    by (metis fst_conv)
  with farmacia show ?thesis by blast
qed

end
